theory Spec2Isabelle
  imports Complex_Main "HOL-Library.AList"
begin

section \<open>Record model (boekhouder/data.py)\<close>

text \<open>
  A Python \<open>Decimal\<close> is modelled by its value, a rational: equality and order are
  numeric, as in Python (\<open>Decimal("25.0") == Decimal("25.00")\<close>). Arithmetic rounds to the
  context; the one operation the handlers use is the unary minus, \<open>Decimal_neg\<close> below.
  The values are finite and within the exponent range of the default context (adjusted
  exponent at most 999999, exponent at least -1000026): NaN, the infinities, the
  \<open>Overflow\<close> signal and the rounding of subnormal numbers are outside the model. A
  \<open>datetime.date\<close> is its proleptic ordinal (\<open>date.toordinal()\<close>), which orders dates
  as Python does.
\<close>

type_synonym Decimal = rat
type_synonym date = nat

text \<open>The number of decimal digits of a natural number, \<open>len(str(n))\<close>.\<close>

fun ndigits :: "nat \<Rightarrow> nat" where
  "ndigits n = (if n < 10 then 1 else Suc (ndigits (n div 10)))"

declare ndigits.simps [simp del]

text \<open>
  \<open>Decimal.adjusted()\<close> of a value other than zero: the exponent of its most significant
  digit. For a magnitude of at least one it is the number of digits of the integer part,
  less one; for a smaller magnitude it is \<open>-m\<close> for the least \<open>m\<close> with
  \<open>1 \<le> \<bar>x\<bar> * 10 ^ m\<close>, which is the number of digits of \<open>\<lceil>1 / \<bar>x\<bar>\<rceil> - 1\<close>.
\<close>

definition adjusted :: "Decimal \<Rightarrow> int" where
  "adjusted x =
     (if 1 \<le> \<bar>x\<bar> then int (ndigits (nat \<lfloor>\<bar>x\<bar>\<rfloor>)) - 1
      else - int (ndigits (nat (\<lceil>1 / \<bar>x\<bar>\<rceil> - 1))))"

text \<open>\<open>ROUND_HALF_EVEN\<close>, the rounding of the default context, of a magnitude to an integer.\<close>

definition round_half_even :: "rat \<Rightarrow> int" where
  "round_half_even y =
     (let f = \<lfloor>y\<rfloor>; r = y - of_int f
      in if 1 / 2 < r \<or> (r = 1 / 2 \<and> odd f) then f + 1 else f)"

text \<open>
  The unary minus of a \<open>Decimal\<close>, \<open>Decimal.__neg__\<close>: the sign is flipped and the result
  rounded to the precision of the default context, 28 significant digits, that is to a
  multiple of \<open>10 ^ (adjusted - 27)\<close>. So
  \<open>-Decimal("1.0000000000000000000000000001")\<close> is
  \<open>Decimal("-1.000000000000000000000000000")\<close>.
\<close>

definition Decimal_neg :: "Decimal \<Rightarrow> Decimal" where
  "Decimal_neg x =
     (if x = 0 then 0
      else
        (let q = 10 powi (adjusted x - 27)
         in - sgn x * of_int (round_half_even (\<bar>x\<bar> / q)) * q))"

datatype error = KeyError | TypeError

record XlTransaction =
  account :: string
  booking_date :: date
  value_date :: date
  operation_date :: date
  reference :: string
  description :: string
  amount :: Decimal
  currency :: string
  counterparty_account :: string
  counterparty_name :: string
  message :: string

text \<open>\<open>beancount.core.amount.Amount(number, currency)\<close>.\<close>

datatype Amount = Amount (number: Decimal) (amount_currency: string)

text \<open>
  \<open>beancount.core.data.Posting\<close>. The fields \<open>account\<close>, \<open>meta\<close> and \<open>flag\<close> carry the
  prefix \<open>posting_\<close>, since the extract record and the transaction have fields of these
  names.
\<close>

record Posting =
  posting_account :: string
  units :: Amount
  cost :: "Amount option"
  price :: "Amount option"
  posting_meta :: "(string \<times> string) list"
  posting_flag :: "string option"

text \<open>
  \<open>beancount.core.data.Transaction\<close>. The metadata dictionary is an association list;
  \<open>tags\<close> and \<open>links\<close> are Python sets.
\<close>

record Transaction =
  date :: date
  meta :: "(string \<times> string) list"
  flag :: string
  payee :: string
  narration :: string
  tags :: "string set"
  links :: "string set"
  postings :: "Posting list"

section \<open>Handlers (boekhouder/importer.py)\<close>

text \<open>
  The replacement dictionary of a handler (\<open>yaml.get("replace", {})\<close>) is a list of
  entries, one per key. A key that names a field of \<open>XlTransaction\<close> carries the value
  stored under it, typed as the field is; any other key is \<open>Unknown_key\<close>, on which
  \<open>dataclasses.replace\<close> raises \<open>TypeError\<close>.
\<close>

datatype replacement =
    Set_account string
  | Set_booking_date date
  | Set_value_date date
  | Set_operation_date date
  | Set_reference string
  | Set_description string
  | Set_amount Decimal
  | Set_currency string
  | Set_counterparty_account string
  | Set_counterparty_name string
  | Set_message string
  | Unknown_key string

fun replace1 :: "replacement \<Rightarrow> XlTransaction \<Rightarrow> error + XlTransaction" where
  "replace1 (Set_account v) txn = Inr (txn\<lparr>account := v\<rparr>)"
| "replace1 (Set_booking_date v) txn = Inr (txn\<lparr>booking_date := v\<rparr>)"
| "replace1 (Set_value_date v) txn = Inr (txn\<lparr>value_date := v\<rparr>)"
| "replace1 (Set_operation_date v) txn = Inr (txn\<lparr>operation_date := v\<rparr>)"
| "replace1 (Set_reference v) txn = Inr (txn\<lparr>reference := v\<rparr>)"
| "replace1 (Set_description v) txn = Inr (txn\<lparr>description := v\<rparr>)"
| "replace1 (Set_amount v) txn = Inr (txn\<lparr>amount := v\<rparr>)"
| "replace1 (Set_currency v) txn = Inr (txn\<lparr>currency := v\<rparr>)"
| "replace1 (Set_counterparty_account v) txn = Inr (txn\<lparr>counterparty_account := v\<rparr>)"
| "replace1 (Set_counterparty_name v) txn = Inr (txn\<lparr>counterparty_name := v\<rparr>)"
| "replace1 (Set_message v) txn = Inr (txn\<lparr>message := v\<rparr>)"
| "replace1 (Unknown_key k) txn = Inl TypeError"

text \<open>\<open>dataclasses.replace(txn, **replacements)\<close>: a copy of the record with the fields set.\<close>

fun dataclasses_replace :: "XlTransaction \<Rightarrow> replacement list \<Rightarrow> error + XlTransaction" where
  "dataclasses_replace txn [] = Inr txn"
| "dataclasses_replace txn (r # rs) =
     (case replace1 r txn of
        Inl e \<Rightarrow> Inl e
      | Inr txn' \<Rightarrow> dataclasses_replace txn' rs)"

text \<open>
  The three handler classes. \<open>Handler\<close> is the base class (registered under the name
  \<open>None\<close>), \<open>Categorize\<close> and \<open>Membership\<close> are its named subclasses; every instance has
  its replacement dictionary, \<open>Categorize\<close> its category, \<open>Membership\<close> its member and its
  monthly cost.
\<close>

datatype Handler =
    Handler (replacements: "replacement list")
  | Categorize (replacements: "replacement list") (category: string)
  | Membership (replacements: "replacement list") (member: string) (monthly_cost: Decimal)

definition DEFAULT_HANDLER :: Handler where
  "DEFAULT_HANDLER = Handler []"

text \<open>
  A matcher of a rule: a string, a compiled regular expression, or a YAML value of another
  type (which \<open>_test1\<close> skips). The regular expression is given by what \<open>item.match\<close>
  decides on a string.
\<close>

datatype StrFilter = Str string | Regexp "string \<Rightarrow> bool" | Other

record Filter =
  filter_name :: "StrFilter list"
  filter_kind :: "StrFilter list"
  filter_message :: "StrFilter list"
  filter_account :: "StrFilter list"
  filter_handler :: Handler

text \<open>
  The repository: \<open>config["filters"]\<close>, \<open>config["accounts"]\<close>, the ledger's transactions by
  reference, the extract records in sequence and by reference. The dictionaries are
  association lists in insertion order.
\<close>

record Repository =
  filters :: "Filter list"
  accounts :: "(string \<times> string) list"
  bc_txn_map :: "(string \<times> Transaction) list"
  xl_txns :: "XlTransaction list"
  xl_txn_map :: "(string \<times> XlTransaction) list"

text \<open>\<open>Repository.get_account\<close>: \<open>self.config["accounts"][iban]\<close>, a \<open>KeyError\<close> when absent.\<close>

definition get_account :: "Repository \<Rightarrow> string \<Rightarrow> error + string" where
  "get_account repo iban =
     (case map_of (accounts repo) iban of
        None \<Rightarrow> Inl KeyError
      | Some a \<Rightarrow> Inr a)"

definition source_type :: "Handler \<Rightarrow> XlTransaction \<Rightarrow> string" where
  "source_type self txn = (if amount txn > 0 then ''Income'' else ''Expenses'')"

fun default_source :: "Handler \<Rightarrow> XlTransaction \<Rightarrow> string" where
  "default_source (Handler r) txn = ''UnaccountedFunds''"
| "default_source (Categorize r c) txn = c"
| "default_source (Membership r m mc) txn = ''Membership''"

text \<open>\<open>"?" if type(self) is Handler else "!"\<close>.\<close>

fun handler_flag :: "Handler \<Rightarrow> string" where
  "handler_flag (Handler r) = ''?''"
| "handler_flag (Categorize r c) = ''!''"
| "handler_flag (Membership r m mc) = ''!''"

text \<open>
  \<open>Handler.handle\<close>, the method of the base class, on any instance \<open>self\<close>. The metadata is
  built from the record as it is passed in, before the replacements are applied.
\<close>

definition Handler_handle :: "Handler \<Rightarrow> Repository \<Rightarrow> XlTransaction \<Rightarrow> error + Transaction" where
  "Handler_handle self repo txn0 =
     (let meta = [(''reference'', reference txn0)] in
      case dataclasses_replace txn0 (replacements self) of
        Inl e \<Rightarrow> Inl e
      | Inr txn \<Rightarrow>
          (case get_account repo (account txn) of
             Inl e \<Rightarrow> Inl e
           | Inr acct \<Rightarrow>
               Inr \<lparr>date = booking_date txn,
                    meta = meta,
                    flag = handler_flag self,
                    payee = counterparty_name txn,
                    narration = message txn,
                    tags = {},
                    links = {},
                    postings =
                      [\<lparr>posting_account = acct,
                        units = Amount (amount txn) (currency txn),
                        cost = None, price = None, posting_meta = [], posting_flag = None\<rparr>,
                       \<lparr>posting_account = source_type self txn @ '':'' @ default_source self txn,
                        units = Amount (Decimal_neg (amount txn)) (currency txn),
                        cost = None, price = None, posting_meta = [], posting_flag = None\<rparr>]\<rparr>))"

definition POS_1 :: Decimal where
  "POS_1 = 1"

text \<open>
  \<open>Membership.handle\<close>. \<open>DEFAULT_HANDLER\<close> is an instance of the base class, so
  \<open>DEFAULT_HANDLER.handle\<close> is \<open>Handler.handle\<close> on it; \<open>super(...).handle\<close> is
  \<open>Handler.handle\<close> on \<open>self\<close>.
\<close>

definition Membership_handle :: "Handler \<Rightarrow> Repository \<Rightarrow> XlTransaction \<Rightarrow> error + Transaction" where
  "Membership_handle self repo txn =
     (if monthly_cost self \<noteq> amount txn then Handler_handle DEFAULT_HANDLER repo txn
      else
        (case Handler_handle self repo txn of
           Inl e \<Rightarrow> Inl e
         | Inr new_txn \<Rightarrow>
             Inr (new_txn
               \<lparr>tags := insert ''membership'' (tags new_txn),
                postings := postings new_txn @
                  [\<lparr>posting_account = ''Assets:Membership'',
                    units = Amount POS_1 ''MEMBERSHIP_MONTH'',
                    cost = None, price = None, posting_meta = [], posting_flag = None\<rparr>,
                   \<lparr>posting_account = ''Liabilities:Members:'' @ member self,
                    units = Amount (Decimal_neg POS_1) ''MEMBERSHIP_MONTH'',
                    cost = None, price = None, posting_meta = [], posting_flag = None\<rparr>]\<rparr>)))"

text \<open>\<open>handler.handle(repo, txn)\<close>: the method of the instance's class.\<close>

fun handle :: "Handler \<Rightarrow> Repository \<Rightarrow> XlTransaction \<Rightarrow> error + Transaction" where
  "handle (Handler r) repo txn = Handler_handle (Handler r) repo txn"
| "handle (Categorize r c) repo txn = Handler_handle (Categorize r c) repo txn"
| "handle (Membership r m mc) repo txn = Membership_handle (Membership r m mc) repo txn"

section \<open>Rules (boekhouder/importer.py, class Filter)\<close>

text \<open>The loop of \<open>Filter._test1\<close> over the matchers.\<close>

fun test1_loop :: "string \<Rightarrow> StrFilter list \<Rightarrow> bool" where
  "test1_loop field [] = False"
| "test1_loop field (Str s # rest) = (if s = field then True else test1_loop field rest)"
| "test1_loop field (Regexp re # rest) = (if re field then True else test1_loop field rest)"
| "test1_loop field (Other # rest) = test1_loop field rest"

definition test1 :: "string \<Rightarrow> StrFilter list \<Rightarrow> bool" where
  "test1 field pattern = (if length pattern = 0 then True else test1_loop field pattern)"

definition test :: "Filter \<Rightarrow> XlTransaction \<Rightarrow> bool" where
  "test self txn =
     list_all (\<lambda>b. b)
       [test1 (message txn) (filter_message self),
        test1 (counterparty_account txn) (filter_account self),
        test1 (counterparty_name txn) (filter_name self),
        test1 (description txn) (filter_kind self)]"

section \<open>Loading the extracts (boekhouder/data.py)\<close>

text \<open>
  A file of the extracts directory: its extension and the records \<open>import_xl\<close> decodes from
  it. \<open>import_file\<close> returns the records of an \<open>.xlsx\<close> file and \<open>None\<close> (after a warning) for
  any other file.
\<close>

record extract_file =
  ext :: string
  rows :: "XlTransaction list"

definition import_file :: "extract_file \<Rightarrow> XlTransaction list option" where
  "import_file f = (if ext f = ''.xlsx'' then Some (rows f) else None)"

text \<open>
  The inner loop of \<open>Repository.load_extracts\<close>: a record with a non-empty reference is
  stored under its reference. \<open>AList.update\<close> replaces the value of a key already present,
  as the assignment to a dictionary entry does.
\<close>

fun index_txns :: "XlTransaction list \<Rightarrow> (string \<times> XlTransaction) list \<Rightarrow> (string \<times> XlTransaction) list" where
  "index_txns [] m = m"
| "index_txns (txn # txns) m =
     index_txns txns (if reference txn \<noteq> [] then AList.update (reference txn) txn m else m)"

text \<open>
  The outer loop, over the files in the order \<open>os.listdir\<close> gives them.
  \<open>self.xl_txns.extend(None)\<close> raises \<open>TypeError\<close>.
\<close>

fun load_files :: "extract_file list \<Rightarrow> Repository \<Rightarrow> error + Repository" where
  "load_files [] repo = Inr repo"
| "load_files (f # fs) repo =
     (case import_file f of
        None \<Rightarrow> Inl TypeError
      | Some txns \<Rightarrow>
          load_files fs
            (repo\<lparr>xl_txns := xl_txns repo @ txns,
                  xl_txn_map := index_txns txns (xl_txn_map repo)\<rparr>))"

definition load_extracts :: "extract_file list \<Rightarrow> Repository \<Rightarrow> error + Repository" where
  "load_extracts files repo = load_files files (repo\<lparr>xl_txns := [], xl_txn_map := []\<rparr>)"

section \<open>The import run (boekhouder/cmd.py)\<close>

text \<open>
  The \<open>for\<close>/\<open>else\<close> over \<open>repo.config.get("filters", [])\<close>: the handler of the first rule
  whose test holds, \<open>DEFAULT_HANDLER\<close> when the loop ends without a \<open>break\<close>.
\<close>

fun select_handler :: "Filter list \<Rightarrow> XlTransaction \<Rightarrow> Handler" where
  "select_handler [] txn = DEFAULT_HANDLER"
| "select_handler (f # fs) txn = (if test f txn then filter_handler f else select_handler fs txn)"

text \<open>
  The loop over \<open>new_txn_ids\<close> (lines 80 to 92), on the identifiers in the order the set
  yields them, with the set \<open>processed\<close> and the list \<open>new_txns\<close> as they stand.
\<close>

fun classify_loop ::
  "Repository \<Rightarrow> string list \<Rightarrow> string set \<Rightarrow> Transaction list \<Rightarrow> error + Transaction list" where
  "classify_loop repo [] processed new_txns = Inr new_txns"
| "classify_loop repo (txn_id # ids) processed new_txns =
     (case map_of (xl_txn_map repo) txn_id of
        None \<Rightarrow> Inl KeyError
      | Some txn \<Rightarrow>
          if reference txn \<in> processed then classify_loop repo ids processed new_txns
          else
            (case handle (select_handler (filters repo) txn) repo txn of
               Inl e \<Rightarrow> Inl e
             | Inr t \<Rightarrow>
                 classify_loop repo ids (insert (reference txn) processed) (new_txns @ [t])))"

text \<open>The loop from its initial state, then \<open>new_txns.sort(key=lambda txn: txn.date)\<close>.\<close>

definition classify :: "Repository \<Rightarrow> string list \<Rightarrow> error + Transaction list" where
  "classify repo ids =
     (case classify_loop repo ids {} [] of
        Inl e \<Rightarrow> Inl e
      | Inr new_txns \<Rightarrow> Inr (sort_key date new_txns))"

text \<open>
  The environment of a run: the two options, the order in which a Python set of
  identifiers is iterated (unspecified by the language, so a parameter), and which of the
  output slots \<open>{date}_{i:03d}\<close> already have a file (what \<open>glob.glob\<close> finds).
\<close>

record env =
  verbose :: bool
  dry_run :: bool
  set_iter :: "string set \<Rightarrow> string list"
  slot_taken :: "nat \<Rightarrow> bool"

text \<open>\<open>ids\<close> is an iteration of the set \<open>S\<close>: each element once.\<close>

definition enumerates :: "string list \<Rightarrow> string set \<Rightarrow> bool" where
  "enumerates ids S \<longleftrightarrow> set ids = S \<and> distinct ids"

text \<open>
  What a run shows and writes. A line of \<open>click.echo\<close> is a message and its \<open>err\<close> flag;
  the formatted messages carry the values they interpolate. An output file is named by
  its slot and its suffix.
\<close>

datatype message =
    Text string
  | Orphan date string string
  | Check_auto nat
  | Fix_manual nat

datatype out_file = Auto_file nat | Manual_file nat

record outcome =
  echoed :: "(message \<times> bool) list"
  printed :: "Transaction list option"
  written :: "(out_file \<times> Transaction list) list"
  rescanned :: bool
  logged_error :: bool

text \<open>The search for a free slot, \<open>for i in range(1, 1000)\<close>; \<open>None\<close> when the loop ends.\<close>

function find_slot :: "(nat \<Rightarrow> bool) \<Rightarrow> nat \<Rightarrow> nat option" where
  "find_slot taken i =
     (if 1000 \<le> i then None
      else if \<not> taken i then Some i
      else find_slot taken (Suc i))"
  by pat_completeness auto
termination
  by (relation "measure (\<lambda>(taken, i). 1000 - i)") auto

declare find_slot.simps [simp del]

text \<open>The lines of the verbose orphan report (lines 70 to 72).\<close>

fun orphan_lines :: "Repository \<Rightarrow> string list \<Rightarrow> error + (message \<times> bool) list" where
  "orphan_lines repo [] = Inr []"
| "orphan_lines repo (txnid # ids) =
     (case map_of (bc_txn_map repo) txnid of
        None \<Rightarrow> Inl KeyError
      | Some txn \<Rightarrow>
          (case orphan_lines repo ids of
             Inl e \<Rightarrow> Inl e
           | Inr ls \<Rightarrow> Inr ((Orphan (date txn) txnid (narration txn), False) # ls)))"

text \<open>The orphan check (lines 63 to 72).\<close>

definition orphan_check :: "env \<Rightarrow> Repository \<Rightarrow> error + (message \<times> bool) list" where
  "orphan_check e repo =
     (let bc_txns = set (map fst (bc_txn_map repo));
          xl_txns = set (map fst (xl_txn_map repo))
      in if bc_txns - xl_txns \<noteq> {} then
           (if \<not> verbose e then
              Inr [(Text ''WARNING: Transactions in ledger not found in extracts'', True),
                   (Text ''Pass -v for details'', True)]
            else
              (case orphan_lines repo (set_iter e (bc_txns - xl_txns)) of
                 Inl err \<Rightarrow> Inl err
               | Inr ls \<Rightarrow>
                   Inr ((Text ''WARNING: Transactions in ledger not found in extracts'', False) # ls)))
         else Inr [])"

definition new_txn_ids :: "Repository \<Rightarrow> string set" where
  "new_txn_ids repo = set (map fst (xl_txn_map repo)) - set (map fst (bc_txn_map repo))"

text \<open>The two buckets (lines 108 and 110).\<close>

definition auto_entries :: "Transaction list \<Rightarrow> Transaction list" where
  "auto_entries new_txns = filter (\<lambda>txn. flag txn = ''!'') new_txns"

definition manual_entries :: "Transaction list \<Rightarrow> Transaction list" where
  "manual_entries new_txns = filter (\<lambda>txn. flag txn \<noteq> ''!'') new_txns"

text \<open>Lines 94 to 120: what is done with the sorted transactions.\<close>

definition emit :: "env \<Rightarrow> (message \<times> bool) list \<Rightarrow> Transaction list \<Rightarrow> outcome" where
  "emit e warned new_txns =
     (if dry_run e then
        \<lparr>echoed = warned, printed = Some new_txns, written = [],
         rescanned = False, logged_error = False\<rparr>
      else
        (case find_slot (slot_taken e) 1 of
           None \<Rightarrow>
             \<lparr>echoed = warned, printed = None, written = [],
              rescanned = False, logged_error = True\<rparr>
         | Some i \<Rightarrow>
             \<lparr>echoed = warned @ [(Text ''TODOs:'', False)]
                @ (if auto_entries new_txns \<noteq> [] then [(Check_auto i, False)] else [])
                @ (if manual_entries new_txns \<noteq> [] then [(Fix_manual i, False)] else []),
              printed = None,
              written = [(Auto_file i, auto_entries new_txns),
                         (Manual_file i, manual_entries new_txns)],
              rescanned = True, logged_error = False\<rparr>))"

text \<open>
  \<open>cmd_import\<close> on the repository as \<open>Repository()\<close> and \<open>load_extracts\<close> leave it. An
  exception ends the run with the error.
\<close>

definition cmd_import :: "env \<Rightarrow> Repository \<Rightarrow> error + outcome" where
  "cmd_import e repo =
     (case orphan_check e repo of
        Inl err \<Rightarrow> Inl err
      | Inr warned \<Rightarrow>
          if new_txn_ids repo = {} then
            Inr \<lparr>echoed = warned @ [(Text ''No new transactions found'', True)],
                 printed = None, written = [], rescanned = False, logged_error = False\<rparr>
          else
            (case classify repo (set_iter e (new_txn_ids repo)) of
               Inl err \<Rightarrow> Inl err
             | Inr new_txns \<Rightarrow> Inr (emit e warned new_txns)))"

section \<open>Vocabulary of the properties\<close>

text \<open>
  What the specification calls a matcher that succeeds (exact-string equality or pattern
  match), and a field check that passes (no matchers, or one that succeeds).
\<close>

fun matcher_succeeds :: "StrFilter \<Rightarrow> string \<Rightarrow> bool" where
  "matcher_succeeds (Str s) field = (s = field)"
| "matcher_succeeds (Regexp re) field = re field"
| "matcher_succeeds Other field = False"

definition field_check :: "StrFilter list \<Rightarrow> string \<Rightarrow> bool" where
  "field_check matchers field \<longleftrightarrow>
     matchers = [] \<or> (\<exists>m \<in> set matchers. matcher_succeeds m field)"

text \<open>The reference a transaction carries in its metadata.\<close>

definition meta_reference :: "Transaction \<Rightarrow> string option" where
  "meta_reference t = map_of (meta t) ''reference''"

text \<open>The sum of the posting amounts of a transaction in one currency.\<close>

definition balance :: "Transaction \<Rightarrow> string \<Rightarrow> Decimal" where
  "balance t c =
     sum_list (map (\<lambda>p. number (units p))
       (filter (\<lambda>p. amount_currency (units p) = c) (postings t)))"

text \<open>
  The two standard money postings of a handler \<open>h\<close> for a record: the amount on the
  resolved account, what the unary minus makes of it on the counter-account.
\<close>

definition money_postings :: "Handler \<Rightarrow> string \<Rightarrow> XlTransaction \<Rightarrow> Posting list" where
  "money_postings h acct txn =
     [\<lparr>posting_account = acct, units = Amount (amount txn) (currency txn),
       cost = None, price = None, posting_meta = [], posting_flag = None\<rparr>,
      \<lparr>posting_account =
         (if amount txn > 0 then ''Income'' else ''Expenses'') @ '':'' @ default_source h txn,
       units = Amount (Decimal_neg (amount txn)) (currency txn),
       cost = None, price = None, posting_meta = [], posting_flag = None\<rparr>]"

text \<open>
  The two membership postings: one unit to the asset-side membership account, minus one
  unit to the liability account of the member.
\<close>

definition membership_postings :: "string \<Rightarrow> Posting list" where
  "membership_postings m =
     [\<lparr>posting_account = ''Assets:Membership'', units = Amount 1 ''MEMBERSHIP_MONTH'',
       cost = None, price = None, posting_meta = [], posting_flag = None\<rparr>,
      \<lparr>posting_account = ''Liabilities:Members:'' @ m,
       units = Amount (- 1) ''MEMBERSHIP_MONTH'',
       cost = None, price = None, posting_meta = [], posting_flag = None\<rparr>]"

text \<open>
  A Membership handler hands a record whose amount differs from its monthly cost to the
  default handler; the other handlers convert every record themselves.
\<close>

fun delegates_to_default :: "Handler \<Rightarrow> XlTransaction \<Rightarrow> bool" where
  "delegates_to_default (Membership r m mc) txn = (mc \<noteq> amount txn)"
| "delegates_to_default (Handler r) txn = False"
| "delegates_to_default (Categorize r c) txn = False"

text \<open>
  The record a handler converts: the record as received when it is handed to the default
  handler, the record with the handler's replacements applied otherwise.
\<close>

definition converted_record :: "Handler \<Rightarrow> XlTransaction \<Rightarrow> error + XlTransaction" where
  "converted_record h txn =
     (if delegates_to_default h txn then Inr txn
      else dataclasses_replace txn (replacements h))"

section \<open>Example data\<close>

definition ex_accounts :: "(string \<times> string) list" where
  "ex_accounts = [(''BE01'', ''Assets:Bank:Checking'')]"

definition ex_record :: "string \<Rightarrow> string \<Rightarrow> string \<Rightarrow> Decimal \<Rightarrow> XlTransaction" where
  "ex_record ref who msg amt =
     \<lparr>account = ''BE01'', booking_date = 19724, value_date = 19724, operation_date = 19724,
      reference = ref, description = ''Overschrijving'', amount = amt, currency = ''EUR'',
      counterparty_account = ''BE02'', counterparty_name = who, message = msg\<rparr>"

definition ex_rule :: "StrFilter list \<Rightarrow> Handler \<Rightarrow> Filter" where
  "ex_rule names h =
     \<lparr>filter_name = names, filter_kind = [], filter_message = [], filter_account = [],
      filter_handler = h\<rparr>"

text \<open>A rule that never matches the examples, a membership rule, and a catch-all rule.\<close>

definition ex_rules :: "Filter list" where
  "ex_rules =
     [ex_rule [Str ''Nobody''] (Categorize [] ''Never''),
      ex_rule [Other, Regexp (\<lambda>s. take 3 s = ''Ali'')] (Membership [] ''alice'' 25),
      ex_rule [] (Categorize [Set_message ''rent''] ''Rent'')]"

definition ex_repo :: Repository where
  "ex_repo =
     \<lparr>filters = [], accounts = ex_accounts, bc_txn_map = [], xl_txns = [], xl_txn_map = []\<rparr>"

text \<open>
  A ledger that knows the reference A1, and two extract files: A1 again, the reference B2
  twice, a record without reference that the membership rule would match, and D3.
\<close>

definition ex_ledger_txn :: Transaction where
  "ex_ledger_txn =
     \<lparr>date = 19700, meta = [(''reference'', ''A1'')], flag = ''*'', payee = ''Shop'',
      narration = ''groceries'', tags = {}, links = {}, postings = []\<rparr>"

definition ex_files :: "extract_file list" where
  "ex_files =
     [\<lparr>ext = ''.xlsx'',
       rows = [ex_record ''A1'' ''Shop'' ''groceries'' (- 12),
               ex_record ''B2'' ''Bob'' ''first'' 10,
               ex_record [] ''Alice'' ''no reference'' 25]\<rparr>,
      \<lparr>ext = ''.xlsx'',
       rows = [ex_record ''B2'' ''Bob'' ''second'' 20,
               ex_record ''D3'' ''Alice'' ''fee'' 25]\<rparr>]"

definition ex_ledger_repo :: Repository where
  "ex_ledger_repo =
     \<lparr>filters = take 2 ex_rules, accounts = ex_accounts,
      bc_txn_map = [(''A1'', ex_ledger_txn)], xl_txns = [], xl_txn_map = []\<rparr>"

definition ex_loaded :: Repository where
  "ex_loaded =
     \<lparr>filters = take 2 ex_rules, accounts = ex_accounts,
      bc_txn_map = [(''A1'', ex_ledger_txn)],
      xl_txns = [ex_record ''A1'' ''Shop'' ''groceries'' (- 12),
                 ex_record ''B2'' ''Bob'' ''first'' 10,
                 ex_record [] ''Alice'' ''no reference'' 25,
                 ex_record ''B2'' ''Bob'' ''second'' 20,
                 ex_record ''D3'' ''Alice'' ''fee'' 25],
      xl_txn_map = [(''A1'', ex_record ''A1'' ''Shop'' ''groceries'' (- 12)),
                    (''B2'', ex_record ''B2'' ''Bob'' ''second'' 20),
                    (''D3'', ex_record ''D3'' ''Alice'' ''fee'' 25)]\<rparr>"

definition ex_txn_B2 :: Transaction where
  "ex_txn_B2 =
     \<lparr>date = 19724, meta = [(''reference'', ''B2'')], flag = ''?'', payee = ''Bob'',
      narration = ''second'', tags = {}, links = {},
      postings = money_postings DEFAULT_HANDLER ''Assets:Bank:Checking''
                   (ex_record ''B2'' ''Bob'' ''second'' 20)\<rparr>"

definition ex_txn_D3 :: Transaction where
  "ex_txn_D3 =
     \<lparr>date = 19724, meta = [(''reference'', ''D3'')], flag = ''!'', payee = ''Alice'',
      narration = ''fee'', tags = {''membership''}, links = {},
      postings = money_postings (Membership [] ''alice'' 25) ''Assets:Bank:Checking''
                   (ex_record ''D3'' ''Alice'' ''fee'' 25) @ membership_postings ''alice''\<rparr>"

definition ex_env :: env where
  "ex_env =
     \<lparr>verbose = False, dry_run = False,
      set_iter = (\<lambda>S. filter (\<lambda>k. k \<in> S) [''D3'', ''B2'', ''A1'', ''Z9'']),
      slot_taken = (\<lambda>i. i < 2)\<rparr>"

text \<open>A repository in which every extract reference is in the ledger, with an orphan Z9.\<close>

definition ex_idle :: Repository where
  "ex_idle =
     \<lparr>filters = ex_rules, accounts = ex_accounts,
      bc_txn_map = [(''A1'', ex_ledger_txn),
                    (''Z9'', ex_ledger_txn\<lparr>meta := [(''reference'', ''Z9'')]\<rparr>)],
      xl_txns = [ex_record ''A1'' ''Shop'' ''groceries'' (- 12)],
      xl_txn_map = [(''A1'', ex_record ''A1'' ''Shop'' ''groceries'' (- 12))]\<rparr>"

text \<open>
  An amount of 29 significant digits, 1.0000000000000000000000000001, and the transaction
  the default handler returns for a record with it.
\<close>

definition ex_long_amount :: Decimal where
  "ex_long_amount = 10000000000000000000000000001 / 10000000000000000000000000000"

definition ex_txn_long :: Transaction where
  "ex_txn_long =
     \<lparr>date = 19724, meta = [(''reference'', ''B2'')], flag = ''?'', payee = ''Bob'',
      narration = ''second'', tags = {}, links = {},
      postings =
        [\<lparr>posting_account = ''Assets:Bank:Checking'',
          units = Amount (10000000000000000000000000001 / 10000000000000000000000000000) ''EUR'',
          cost = None, price = None, posting_meta = [], posting_flag = None\<rparr>,
         \<lparr>posting_account = ''Income:UnaccountedFunds'', units = Amount (- 1) ''EUR'',
          cost = None, price = None, posting_meta = [], posting_flag = None\<rparr>]\<rparr>"

section \<open>The unary minus of a decimal\<close>

lemma ndigits_le: "n < 10 ^ d \<Longrightarrow> 0 < d \<Longrightarrow> ndigits n \<le> d"
proof (induction n arbitrary: d rule: ndigits.induct)
  case (1 n)
  show ?case
  proof (cases "n < 10")
    case True
    with 1(3) show ?thesis by (simp add: ndigits.simps)
  next
    case False
    from 1(3) obtain d' where d: "d = Suc d'" by (cases d) auto
    from False 1(2) d have "0 < d'" by (cases d') auto
    moreover from 1(2) d have "n div 10 < 10 ^ d'" by (simp add: less_mult_imp_div_less mult.commute)
    ultimately have "ndigits (n div 10) \<le> d'" using 1(1)[OF False] by blast
    with False d show ?thesis by (simp add: ndigits.simps)
  qed
qed

lemma ndigits_gt: "10 ^ j \<le> n \<Longrightarrow> j < ndigits n"
proof (induction n arbitrary: j rule: ndigits.induct)
  case (1 n)
  show ?case
  proof (cases "n < 10")
    case True
    with 1(2) have "(10::nat) ^ j < 10 ^ 1" by simp
    then have "j < 1" by (rule power_less_imp_less_exp[rotated]) simp
    then show ?thesis by (simp add: ndigits.simps)
  next
    case False
    show ?thesis
    proof (cases j)
      case 0
      then show ?thesis by (simp add: ndigits.simps)
    next
      case (Suc j')
      with 1(2) have "10 ^ j' \<le> n div 10" by (simp add: less_eq_div_iff_mult_less_eq mult.commute)
      from 1(1)[OF False this] False Suc show ?thesis by (simp add: ndigits.simps)
    qed
  qed
qed

lemma round_half_even_of_int [simp]: "round_half_even (of_int z) = z"
  by (simp add: round_half_even_def)

lemma adjusted_le:
  assumes x: "x \<noteq> 0" and b: "\<bar>x\<bar> < 10 powi (k + 1)"
  shows "adjusted x \<le> k"
proof (cases "1 \<le> \<bar>x\<bar>")
  case True
  with b have "(1::rat) < 10 powi (k + 1)" by simp
  have k: "0 \<le> k"
  proof (rule ccontr)
    assume "\<not> 0 \<le> k"
    then have "k + 1 \<le> 0" by simp
    then have "(10::rat) powi (k + 1) \<le> 10 powi 0" by (rule power_int_increasing) simp
    with \<open>(1::rat) < 10 powi (k + 1)\<close> show False by simp
  qed
  define d where "d = nat (k + 1)"
  from k have d: "0 < d" "int d = k + 1" by (simp_all add: d_def)
  from b d have "\<bar>x\<bar> < 10 ^ d" by (metis power_int_of_nat)
  then have "of_int \<lfloor>\<bar>x\<bar>\<rfloor> < (10::rat) ^ d" by (meson of_int_floor_le order_le_less_trans)
  then have "\<lfloor>\<bar>x\<bar>\<rfloor> < 10 ^ d" by (metis of_int_less_iff of_int_numeral of_int_power)
  then have "nat \<lfloor>\<bar>x\<bar>\<rfloor> < 10 ^ d" using True by (simp add: nat_less_iff)
  from ndigits_le[OF this d(1)] d(2) True show ?thesis by (simp add: adjusted_def)
next
  case False
  define N where "N = nat (\<lceil>1 / \<bar>x\<bar>\<rceil> - 1)"
  have adj: "adjusted x = - int (ndigits N)" using False by (simp add: adjusted_def N_def)
  show ?thesis
  proof (cases "- 1 \<le> k")
    case True
    have "0 < ndigits N" using ndigits_gt[of 0 N] by (cases "N") (simp_all add: ndigits.simps)
    with True adj show ?thesis by simp
  next
    case kneg: False
    define j where "j = nat (- (k + 1))"
    from kneg have j: "int j = - (k + 1)" by (simp add: j_def)
    have pos: "0 < \<bar>x\<bar>" using x by simp
    from b j have "\<bar>x\<bar> < inverse (10 ^ j)"
      by (metis add.inverse_inverse power_int_minus power_int_of_nat)
    then have "\<bar>x\<bar> * 10 ^ j < 1" by (simp add: field_simps)
    then have "(10::rat) ^ j < 1 / \<bar>x\<bar>" using pos by (simp add: field_simps)
    also have "\<dots> \<le> of_int \<lceil>1 / \<bar>x\<bar>\<rceil>" by (rule le_of_int_ceiling)
    finally have "(10::rat) ^ j < of_int \<lceil>1 / \<bar>x\<bar>\<rceil>" .
    then have "(10::int) ^ j < \<lceil>1 / \<bar>x\<bar>\<rceil>" by (metis of_int_less_iff of_int_numeral of_int_power)
    then have "10 ^ j \<le> N" by (simp add: N_def le_nat_iff)
    from ndigits_gt[OF this] adj j show ?thesis by simp
  qed
qed

lemma Decimal_neg_exact:
  assumes x: "x = of_int c * 10 powi e" and c: "\<bar>c\<bar> < 10 ^ 28"
  shows "Decimal_neg x = - x"
proof (cases "x = 0")
  case True
  then show ?thesis by (simp add: Decimal_neg_def)
next
  case False
  have ax: "\<bar>x\<bar> = of_int \<bar>c\<bar> * 10 powi e" by (simp add: x abs_mult power_int_abs)
  from c have "(of_int \<bar>c\<bar> :: rat) < 10 ^ 28" by (metis of_int_less_iff of_int_numeral of_int_power)
  then have "\<bar>x\<bar> < 10 ^ 28 * 10 powi e" by (simp add: ax)
  also have "\<dots> = 10 powi (e + 27 + 1)" by (simp add: power_int_add)
  finally have "adjusted x \<le> e + 27" by (rule adjusted_le[OF False])
  define m where "m = nat (e + 27 - adjusted x)"
  with \<open>adjusted x \<le> e + 27\<close> have m: "int m = e - (adjusted x - 27)" by simp
  have "\<bar>x\<bar> / 10 powi (adjusted x - 27) = of_int \<bar>c\<bar> * 10 powi (e - (adjusted x - 27))"
    by (simp add: ax power_int_diff)
  also have "\<dots> = of_int (\<bar>c\<bar> * 10 ^ m)" by (simp only: m[symmetric] power_int_of_nat) simp
  finally have eq: "\<bar>x\<bar> / 10 powi (adjusted x - 27) = of_int (\<bar>c\<bar> * 10 ^ m)" .
  have q: "(10::rat) powi (adjusted x - 27) \<noteq> 0" by simp
  have "of_int (round_half_even (\<bar>x\<bar> / 10 powi (adjusted x - 27))) =
          \<bar>x\<bar> / 10 powi (adjusted x - 27)"
    by (simp only: eq round_half_even_of_int)
  then have r: "of_int (round_half_even (\<bar>x\<bar> / 10 powi (adjusted x - 27))) *
          10 powi (adjusted x - 27) = \<bar>x\<bar>"
    using q by simp
  have "Decimal_neg x = - (sgn x * \<bar>x\<bar>)"
    using False r by (simp add: Decimal_neg_def Let_def mult.assoc)
  then show ?thesis by (simp only: sgn_mult_abs)
qed

lemma Decimal_neg_1: "Decimal_neg 1 = - 1"
  using Decimal_neg_exact[of 1 1 0] by simp

lemma Decimal_neg_long: "Decimal_neg ex_long_amount = - 1"
proof -
  let ?x = "10000000000000000000000000001 / 10000000000000000000000000000 :: rat"
  have f: "\<lfloor>?x\<rfloor> = 1" by (simp add: floor_eq_iff)
  have a: "adjusted ?x = 0" by (simp add: adjusted_def f ndigits.simps)
  have g: "\<lfloor>(10000000000000000000000000001::rat) / 10\<rfloor> = 1000000000000000000000000000"
    by (simp add: floor_eq_iff)
  show ?thesis
    by (simp add: ex_long_amount_def Decimal_neg_def a round_half_even_def Let_def g)
qed

section \<open>Rules: the test of a rule and the choice of the handler\<close>

lemma test1_loop_iff:
  "test1_loop field pattern \<longleftrightarrow> (\<exists>m \<in> set pattern. matcher_succeeds m field)"
  by (induction field pattern rule: test1_loop.induct) auto

lemma test1_iff: "test1 field pattern \<longleftrightarrow> field_check pattern field"
  by (simp add: test1_def field_check_def test1_loop_iff)

text \<open>
  C4. The test of a rule holds exactly when its four field checks pass (counterparty name,
  description/kind, message, counterparty account), where a field check passes exactly
  when the matcher list is empty or one of its matchers succeeds on the field.
\<close>

theorem test_iff_all_field_checks:
  "test f txn \<longleftrightarrow>
     field_check (filter_name f) (counterparty_name txn) \<and>
     field_check (filter_kind f) (description txn) \<and>
     field_check (filter_message f) (message txn) \<and>
     field_check (filter_account f) (counterparty_account txn)"
  by (auto simp add: test_def test1_iff)

lemma select_first:
  "i < length fs \<Longrightarrow> test (fs ! i) txn \<Longrightarrow> \<forall>j<i. \<not> test (fs ! j) txn \<Longrightarrow>
     select_handler fs txn = filter_handler (fs ! i)"
proof (induction fs arbitrary: i)
  case Nil
  then show ?case by simp
next
  case (Cons f fs)
  show ?case
  proof (cases i)
    case 0
    with Cons.prems show ?thesis by simp
  next
    case (Suc k)
    with Cons.prems have "\<not> test f txn" by auto
    moreover have "select_handler fs txn = filter_handler (fs ! k)"
      using Cons.prems Suc by (intro Cons.IH) auto
    ultimately show ?thesis using Suc by simp
  qed
qed

lemma select_none: "\<forall>f \<in> set fs. \<not> test f txn \<Longrightarrow> select_handler fs txn = DEFAULT_HANDLER"
  by (induction fs) auto

lemma Handler_handle_Inr:
  "Handler_handle h repo txn = Inr t \<longleftrightarrow>
     (\<exists>txn' acct. dataclasses_replace txn (replacements h) = Inr txn' \<and>
        map_of (accounts repo) (account txn') = Some acct \<and>
        t = \<lparr>date = booking_date txn', meta = [(''reference'', reference txn)],
             flag = handler_flag h, payee = counterparty_name txn', narration = message txn',
             tags = {}, links = {}, postings = money_postings h acct txn'\<rparr>)"
  by (auto simp: Handler_handle_def Let_def get_account_def money_postings_def source_type_def
      split: sum.splits option.splits)

lemma default_flag: "handle DEFAULT_HANDLER repo txn = Inr t \<Longrightarrow> flag t = ''?''"
  by (auto simp: DEFAULT_HANDLER_def Handler_handle_Inr)

lemma default_succeeds:
  "map_of (accounts repo) (account txn) = Some a \<Longrightarrow>
     \<exists>t. handle DEFAULT_HANDLER repo txn = Inr t \<and> flag t = ''?''"
  by (simp add: DEFAULT_HANDLER_def Handler_handle_Inr)

text \<open>
  C5. The handler chosen for a record is the one bound to the first rule, in list order,
  whose test holds. When no rule's test holds, the default handler is chosen: the
  transaction it returns has the flag \<open>?\<close> (provisional), and it returns one whenever the
  record's account is registered.
\<close>

theorem first_match_selection:
  "(\<forall>i. i < length fs \<longrightarrow> test (fs ! i) txn \<longrightarrow> (\<forall>j<i. \<not> test (fs ! j) txn) \<longrightarrow>
        select_handler fs txn = filter_handler (fs ! i)) \<and>
   ((\<forall>f \<in> set fs. \<not> test f txn) \<longrightarrow>
        select_handler fs txn = DEFAULT_HANDLER \<and>
        (\<forall>t. handle (select_handler fs txn) repo txn = Inr t \<longrightarrow> flag t = ''?'') \<and>
        (\<forall>a. map_of (accounts repo) (account txn) = Some a \<longrightarrow>
           (\<exists>t. handle (select_handler fs txn) repo txn = Inr t \<and> flag t = ''?'')))"
  by (auto simp add: select_first select_none dest: default_flag default_succeeds)

theorem first_match_selection_witness:
  "test (ex_rules ! 1) (ex_record ''B2'' ''Alice'' ''fee'' 25) \<and>
   \<not> test (ex_rules ! 0) (ex_record ''B2'' ''Alice'' ''fee'' 25) \<and>
   select_handler ex_rules (ex_record ''B2'' ''Alice'' ''fee'' 25) = Membership [] ''alice'' 25 \<and>
   select_handler (take 1 ex_rules) (ex_record ''B2'' ''Alice'' ''fee'' 25) = DEFAULT_HANDLER \<and>
   (\<exists>t. handle (select_handler (take 1 ex_rules) (ex_record ''B2'' ''Alice'' ''fee'' 25))
          ex_repo (ex_record ''B2'' ''Alice'' ''fee'' 25) = Inr t \<and> flag t = ''?'')"
proof -
  let ?x = "ex_record ''B2'' ''Alice'' ''fee'' 25"
  have t1: "test (ex_rules ! 1) ?x"
    by (simp add: ex_rules_def ex_rule_def ex_record_def test_def test1_def)
  have t0: "\<not> test (ex_rules ! 0) ?x"
    by (simp add: ex_rules_def ex_rule_def ex_record_def test_def test1_def)
  have len: "1 < length ex_rules" by (simp add: ex_rules_def)
  have before: "\<forall>j<1. \<not> test (ex_rules ! j) ?x" using t0 by simp
  have none: "\<forall>f \<in> set (take 1 ex_rules). \<not> test f ?x"
    by (simp add: ex_rules_def ex_rule_def ex_record_def test_def test1_def)
  have acct: "map_of (accounts ex_repo) (account ?x) = Some ''Assets:Bank:Checking''"
    by (simp add: ex_repo_def ex_accounts_def ex_record_def)
  from first_match_selection[of ex_rules ?x ex_repo] len t1 before
  have "select_handler ex_rules ?x = filter_handler (ex_rules ! 1)" by blast
  then have s1: "select_handler ex_rules ?x = Membership [] ''alice'' 25"
    by (simp add: ex_rules_def ex_rule_def)
  from first_match_selection[of "take 1 ex_rules" ?x ex_repo] none acct
  have s2: "select_handler (take 1 ex_rules) ?x = DEFAULT_HANDLER"
    and s3: "\<exists>t. handle (select_handler (take 1 ex_rules) ?x) ex_repo ?x = Inr t \<and> flag t = ''?''"
    by blast+
  from t1 t0 s1 s2 s3 show ?thesis by blast
qed

section \<open>Handlers: membership policy and balance\<close>

text \<open>
  C3. A Membership handler, on a record whose amount equals the monthly fee, returns a
  transaction with four postings (the two money postings, then one MEMBERSHIP_MONTH unit
  to \<open>Assets:Membership\<close> and minus one to the liability account of the member) and the
  tag \<open>membership\<close>; on any other amount it returns what the default handler returns, two
  postings and no tag. In both cases a transaction is returned whenever the account looked
  up is registered (and, in the first, the replacement dictionary has no unknown key).
\<close>

theorem membership_exact_match:
  "(amount txn = mc \<longrightarrow>
      (\<forall>t. handle (Membership r m mc) repo txn = Inr t \<longrightarrow>
         length (postings t) = 4 \<and> tags t = {''membership''}) \<and>
      (\<forall>txn' acct. dataclasses_replace txn r = Inr txn' \<longrightarrow>
         map_of (accounts repo) (account txn') = Some acct \<longrightarrow>
         (\<exists>t. handle (Membership r m mc) repo txn = Inr t \<and>
              postings t = money_postings (Membership r m mc) acct txn' @ membership_postings m \<and>
              tags t = {''membership''}))) \<and>
   (amount txn \<noteq> mc \<longrightarrow>
      handle (Membership r m mc) repo txn = handle DEFAULT_HANDLER repo txn \<and>
      (\<forall>t. handle (Membership r m mc) repo txn = Inr t \<longrightarrow>
         length (postings t) = 2 \<and> tags t = {}) \<and>
      (\<forall>acct. map_of (accounts repo) (account txn) = Some acct \<longrightarrow>
         (\<exists>t. handle (Membership r m mc) repo txn = Inr t \<and>
              postings t = money_postings DEFAULT_HANDLER acct txn \<and> tags t = {})))"
proof (intro conjI impI allI)
  fix t assume "amount txn = mc" and h: "handle (Membership r m mc) repo txn = Inr t"
  then obtain t0 where t0: "Handler_handle (Membership r m mc) repo txn = Inr t0"
    and t: "t = t0\<lparr>tags := insert ''membership'' (tags t0),
                  postings := postings t0 @ membership_postings m\<rparr>"
    by (auto simp: Membership_handle_def membership_postings_def POS_1_def Decimal_neg_1 split: sum.splits)
  from t0 have "length (postings t0) = 2" "tags t0 = {}"
    by (auto simp: Handler_handle_Inr money_postings_def)
  with t show "length (postings t) = 4" "tags t = {''membership''}"
    by (simp_all add: membership_postings_def)
next
  fix txn' acct
  assume "amount txn = mc" "dataclasses_replace txn r = Inr txn'"
    "map_of (accounts repo) (account txn') = Some acct"
  then show "\<exists>t. handle (Membership r m mc) repo txn = Inr t \<and>
              postings t = money_postings (Membership r m mc) acct txn' @ membership_postings m \<and>
              tags t = {''membership''}"
    by (simp add: Membership_handle_def Handler_handle_def get_account_def money_postings_def
        membership_postings_def POS_1_def Decimal_neg_1 source_type_def)
next
  assume ne: "amount txn \<noteq> mc"
  then show eq: "handle (Membership r m mc) repo txn = handle DEFAULT_HANDLER repo txn"
    by (auto simp: Membership_handle_def DEFAULT_HANDLER_def)
  {
    fix t assume "handle (Membership r m mc) repo txn = Inr t"
    with ne have "Handler_handle DEFAULT_HANDLER repo txn = Inr t"
      by (auto simp: Membership_handle_def)
    then show "length (postings t) = 2" "tags t = {}"
      by (auto simp: Handler_handle_Inr money_postings_def)
  }
  {
    fix acct assume "map_of (accounts repo) (account txn) = Some acct"
    with ne show "\<exists>t. handle (Membership r m mc) repo txn = Inr t \<and>
              postings t = money_postings DEFAULT_HANDLER acct txn \<and> tags t = {}"
      by (simp add: Membership_handle_def Handler_handle_def get_account_def money_postings_def
          DEFAULT_HANDLER_def source_type_def)
  }
qed

theorem membership_exact_match_witness:
  "amount (ex_record ''B2'' ''Alice'' ''fee'' 25) = 25 \<and>
   (\<exists>t. handle (Membership [] ''alice'' 25) ex_repo (ex_record ''B2'' ''Alice'' ''fee'' 25) = Inr t \<and>
        postings t =
          money_postings (Membership [] ''alice'' 25) ''Assets:Bank:Checking''
            (ex_record ''B2'' ''Alice'' ''fee'' 25) @ membership_postings ''alice'' \<and>
        tags t = {''membership''}) \<and>
   amount (ex_record ''B2'' ''Alice'' ''fee'' (2501 / 100)) \<noteq> 25 \<and>
   (\<exists>t. handle (Membership [] ''alice'' 25) ex_repo
          (ex_record ''B2'' ''Alice'' ''fee'' (2501 / 100)) = Inr t \<and>
        postings t =
          money_postings DEFAULT_HANDLER ''Assets:Bank:Checking''
            (ex_record ''B2'' ''Alice'' ''fee'' (2501 / 100)) \<and>
        tags t = {})"
proof -
  let ?x = "ex_record ''B2'' ''Alice'' ''fee'' 25"
  let ?y = "ex_record ''B2'' ''Alice'' ''fee'' (2501 / 100)"
  have a: "amount ?x = 25" by (simp add: ex_record_def)
  have b: "dataclasses_replace ?x [] = Inr ?x" by simp
  have c: "map_of (accounts ex_repo) (account ?x) = Some ''Assets:Bank:Checking''"
    by (simp add: ex_repo_def ex_accounts_def ex_record_def)
  have d: "amount ?y \<noteq> 25" by (simp add: ex_record_def)
  have e: "map_of (accounts ex_repo) (account ?y) = Some ''Assets:Bank:Checking''"
    by (simp add: ex_repo_def ex_accounts_def ex_record_def)
  from membership_exact_match[of ?x 25 "[]" "''alice''" ex_repo] a b c
  have 1: "\<exists>t. handle (Membership [] ''alice'' 25) ex_repo ?x = Inr t \<and>
        postings t = money_postings (Membership [] ''alice'' 25) ''Assets:Bank:Checking'' ?x
           @ membership_postings ''alice'' \<and> tags t = {''membership''}"
    by blast
  from membership_exact_match[of ?y 25 "[]" "''alice''" ex_repo] d e
  have 2: "\<exists>t. handle (Membership [] ''alice'' 25) ex_repo ?y = Inr t \<and>
        postings t = money_postings DEFAULT_HANDLER ''Assets:Bank:Checking'' ?y \<and> tags t = {}"
    by blast
  from a 1 d 2 show ?thesis by blast
qed

lemma money_postings_balance:
  "Decimal_neg (amount x) = - amount x \<Longrightarrow>
     sum_list (map (\<lambda>p. number (units p))
       (filter (\<lambda>p. amount_currency (units p) = cur) (money_postings h acct x))) = 0"
  by (simp add: money_postings_def)

lemma membership_postings_balance:
  "sum_list (map (\<lambda>p. number (units p))
     (filter (\<lambda>p. amount_currency (units p) = cur) (membership_postings m))) = 0"
  by (simp add: membership_postings_def)

lemma Handler_handle_balance:
  assumes h: "Handler_handle h repo txn = Inr t"
    and r: "dataclasses_replace txn (replacements h) = Inr txn'"
    and n: "Decimal_neg (amount txn') = - amount txn'"
  shows "balance t cur = 0"
proof -
  from h r obtain acct where "postings t = money_postings h acct txn'"
    by (auto simp: Handler_handle_Inr)
  with money_postings_balance[OF n] show ?thesis by (simp add: balance_def)
qed

text \<open>
  C6, as the code has it. A transaction a handler returns (the default handler, Categorize
  or Membership) is balanced, in every currency its posting amounts sum to zero, when the
  amount of the record the handler converts has at most 28 significant digits and an
  exponent in the range of the default context: it is \<open>c * 10 ^ e\<close> with
  \<open>\<bar>c\<bar> < 10 ^ 28\<close> and \<open>-1000026 \<le> e \<le> 999972\<close>. An amount quantised to two decimals, as
  the decoder of the extracts leaves it, is of this form.
\<close>

theorem handle_balanced_within_precision:
  assumes h: "handle h repo txn = Inr t"
    and conv: "converted_record h txn = Inr txn'"
    and amt: "amount txn' = of_int c * 10 powi e"
    and prec: "\<bar>c\<bar> < 10 ^ 28"
    and emin: "- 1000026 \<le> e"
    and emax: "e \<le> 999972"
  shows "balance t cur = 0"
proof -
  have n: "Decimal_neg (amount txn') = - amount txn'"
    using amt prec by (rule Decimal_neg_exact)
  show ?thesis
  proof (cases "delegates_to_default h txn")
    case True
    with conv have same: "txn' = txn" by (simp add: converted_record_def)
    from True obtain r m mc where hm: "h = Membership r m mc" and ne: "mc \<noteq> amount txn"
      by (cases h) auto
    from h hm ne have d: "Handler_handle DEFAULT_HANDLER repo txn = Inr t"
      by (simp add: Membership_handle_def)
    have "dataclasses_replace txn (replacements DEFAULT_HANDLER) = Inr txn'"
      by (simp add: DEFAULT_HANDLER_def same)
    from Handler_handle_balance[OF d this n] show ?thesis .
  next
    case False
    with conv have r: "dataclasses_replace txn (replacements h) = Inr txn'"
      by (simp add: converted_record_def)
    show ?thesis
    proof (cases h)
      case (Handler r')
      with h have "Handler_handle h repo txn = Inr t" by simp
      from Handler_handle_balance[OF this r n] show ?thesis .
    next
      case (Categorize r' c')
      with h have "Handler_handle h repo txn = Inr t" by simp
      from Handler_handle_balance[OF this r n] show ?thesis .
    next
      case (Membership r' m mc)
      with False have eq: "mc = amount txn" by simp
      with h Membership obtain t0 where t0: "Handler_handle h repo txn = Inr t0"
        and t: "t = t0\<lparr>tags := insert ''membership'' (tags t0),
                  postings := postings t0 @ membership_postings m\<rparr>"
        by (auto simp: Membership_handle_def membership_postings_def POS_1_def Decimal_neg_1
            split: sum.splits)
      from Handler_handle_balance[OF t0 r n] have "balance t0 cur = 0" .
      with t membership_postings_balance[of cur m] show ?thesis
        by (simp add: balance_def)
    qed
  qed
qed

theorem handle_balanced_within_precision_witness:
  "handle (Membership [] ''alice'' 25) ex_repo (ex_record ''B2'' ''Alice'' ''fee'' 25) =
     Inr \<lparr>date = 19724, meta = [(''reference'', ''B2'')], flag = ''!'', payee = ''Alice'',
          narration = ''fee'', tags = {''membership''}, links = {},
          postings =
            money_postings (Membership [] ''alice'' 25) ''Assets:Bank:Checking''
              (ex_record ''B2'' ''Alice'' ''fee'' 25) @ membership_postings ''alice''\<rparr> \<and>
   converted_record (Membership [] ''alice'' 25) (ex_record ''B2'' ''Alice'' ''fee'' 25) =
     Inr (ex_record ''B2'' ''Alice'' ''fee'' 25) \<and>
   amount (ex_record ''B2'' ''Alice'' ''fee'' 25) = of_int 2500 * 10 powi (- 2) \<and>
   \<bar>2500 :: int\<bar> < 10 ^ 28 \<and> - 1000026 \<le> (- 2 :: int) \<and> (- 2 :: int) \<le> 999972 \<and>
   balance \<lparr>date = 19724, meta = [(''reference'', ''B2'')], flag = ''!'', payee = ''Alice'',
          narration = ''fee'', tags = {''membership''}, links = {},
          postings =
            money_postings (Membership [] ''alice'' 25) ''Assets:Bank:Checking''
              (ex_record ''B2'' ''Alice'' ''fee'' 25) @ membership_postings ''alice''\<rparr> ''EUR'' = 0"
proof -
  have h: "handle (Membership [] ''alice'' 25) ex_repo (ex_record ''B2'' ''Alice'' ''fee'' 25) =
     Inr \<lparr>date = 19724, meta = [(''reference'', ''B2'')], flag = ''!'', payee = ''Alice'',
          narration = ''fee'', tags = {''membership''}, links = {},
          postings =
            money_postings (Membership [] ''alice'' 25) ''Assets:Bank:Checking''
              (ex_record ''B2'' ''Alice'' ''fee'' 25) @ membership_postings ''alice''\<rparr>"
    by (simp add: Membership_handle_def Handler_handle_def get_account_def money_postings_def
        membership_postings_def POS_1_def Decimal_neg_1 source_type_def ex_repo_def
        ex_accounts_def ex_record_def)
  have conv: "converted_record (Membership [] ''alice'' 25)
      (ex_record ''B2'' ''Alice'' ''fee'' 25) = Inr (ex_record ''B2'' ''Alice'' ''fee'' 25)"
    by (simp add: converted_record_def ex_record_def)
  have amt: "amount (ex_record ''B2'' ''Alice'' ''fee'' 25) = of_int 2500 * 10 powi (- 2)"
    by (simp add: ex_record_def)
  have prec: "\<bar>2500 :: int\<bar> < 10 ^ 28" by simp
  have emin: "- 1000026 \<le> (- 2 :: int)" by simp
  have emax: "(- 2 :: int) \<le> 999972" by simp
  from handle_balanced_within_precision[OF h conv amt prec emin emax, of "''EUR''"]
    h conv amt prec emin emax
  show ?thesis by blast
qed

text \<open>
  C6 as stated fails: for a record with the amount 1.0000000000000000000000000001 the
  default handler returns a transaction whose second posting is -1, rounded to 28 digits,
  and whose amounts in EUR sum to 1E-28.
\<close>

theorem balanced_on_any_record_counterexample:
  "handle DEFAULT_HANDLER ex_repo (ex_record ''B2'' ''Bob'' ''second'' ex_long_amount) =
     Inr ex_txn_long \<and>
   balance ex_txn_long ''EUR'' = 1 / 10000000000000000000000000000 \<and>
   balance ex_txn_long ''EUR'' \<noteq> 0"
proof -
  have "handle DEFAULT_HANDLER ex_repo (ex_record ''B2'' ''Bob'' ''second'' ex_long_amount) =
     Inr ex_txn_long"
    by (simp add: DEFAULT_HANDLER_def Handler_handle_def get_account_def source_type_def
        ex_repo_def ex_accounts_def ex_record_def ex_txn_long_def Decimal_neg_long)
      (simp add: ex_long_amount_def)
  moreover have b: "balance ex_txn_long ''EUR'' = 1 / 10000000000000000000000000000"
    by (simp add: balance_def ex_txn_long_def)
  moreover from b have "balance ex_txn_long ''EUR'' \<noteq> 0" by simp
  ultimately show ?thesis by blast
qed

section \<open>Handlers: the replacement dictionary and the confidence flag\<close>

lemma Handler_handle_meta: "Handler_handle h repo txn = Inr t \<Longrightarrow> meta t = [(''reference'', reference txn)]"
  by (auto simp: Handler_handle_def Let_def split: sum.splits)

lemma handle_meta: "handle h repo txn = Inr t \<Longrightarrow> meta t = [(''reference'', reference txn)]"
  by (cases h) (auto simp: Membership_handle_def dest: Handler_handle_meta split: sum.splits if_splits)

lemma handle_meta_reference: "handle h repo txn = Inr t \<Longrightarrow> meta_reference t = Some (reference txn)"
  by (simp add: meta_reference_def handle_meta)

lemma handle_flag:
  "handle h repo txn = Inr t \<Longrightarrow>
     flag t = (if delegates_to_default h txn then ''?'' else handler_flag h)"
  by (cases h) (auto simp: Membership_handle_def Handler_handle_Inr DEFAULT_HANDLER_def
      split: sum.splits if_splits)

text \<open>
  C7, as the code has it. The metadata of the returned transaction is the reference of
  the record as the handler receives it, before any replacement. Its date, payee,
  narration and money postings are computed from the replaced record when the handler
  converts the record itself, and from the record as received when a Membership handler
  hands it to the default handler (whose replacement dictionary is empty).
\<close>

theorem replacement_before_use_except_reference:
  "handle h repo txn = Inr t \<Longrightarrow>
     meta t = [(''reference'', reference txn)] \<and>
     (\<exists>txn' acct.
        (if delegates_to_default h txn then txn' = txn
         else dataclasses_replace txn (replacements h) = Inr txn') \<and>
        map_of (accounts repo) (account txn') = Some acct \<and>
        date t = booking_date txn' \<and> payee t = counterparty_name txn' \<and>
        narration t = message txn' \<and>
        take 2 (postings t) =
          money_postings (if delegates_to_default h txn then DEFAULT_HANDLER else h) acct txn')"
proof (cases h)
  case (Handler r)
  assume "handle h repo txn = Inr t"
  with Handler show ?thesis by (auto simp: Handler_handle_Inr money_postings_def)
next
  case (Categorize r c)
  assume "handle h repo txn = Inr t"
  with Categorize show ?thesis by (auto simp: Handler_handle_Inr money_postings_def)
next
  case (Membership r m mc)
  assume h: "handle h repo txn = Inr t"
  show ?thesis
  proof (cases "mc = amount txn")
    case True
    with h Membership obtain t0 where t0: "Handler_handle h repo txn = Inr t0"
      and t: "t = t0\<lparr>tags := insert ''membership'' (tags t0),
                  postings := postings t0 @ membership_postings m\<rparr>"
      by (auto simp: Membership_handle_def membership_postings_def POS_1_def Decimal_neg_1 split: sum.splits)
    from t0 t True Membership show ?thesis
      by (auto simp: Handler_handle_Inr money_postings_def)
  next
    case False
    with h Membership have "Handler_handle DEFAULT_HANDLER repo txn = Inr t"
      by (simp add: Membership_handle_def)
    with False Membership show ?thesis
      by (auto simp: Handler_handle_Inr DEFAULT_HANDLER_def money_postings_def)
  qed
qed

theorem replacement_before_use_except_reference_witness:
  "handle (Categorize [Set_reference ''X9'', Set_message ''rent''] ''Rent'') ex_repo
     (ex_record ''B2'' ''Bob'' ''second'' 20) =
     Inr \<lparr>date = 19724, meta = [(''reference'', ''B2'')], flag = ''!'', payee = ''Bob'',
          narration = ''rent'', tags = {}, links = {},
          postings = money_postings (Categorize [Set_reference ''X9'', Set_message ''rent''] ''Rent'')
                       ''Assets:Bank:Checking'' (ex_record ''X9'' ''Bob'' ''rent'' 20)\<rparr> \<and>
   meta \<lparr>date = 19724, meta = [(''reference'', ''B2'')], flag = ''!'', payee = ''Bob'',
          narration = ''rent'', tags = {}, links = {},
          postings = money_postings (Categorize [Set_reference ''X9'', Set_message ''rent''] ''Rent'')
                       ''Assets:Bank:Checking'' (ex_record ''X9'' ''Bob'' ''rent'' 20)\<rparr> =
     [(''reference'', reference (ex_record ''B2'' ''Bob'' ''second'' 20))]"
proof -
  have h: "handle (Categorize [Set_reference ''X9'', Set_message ''rent''] ''Rent'') ex_repo
     (ex_record ''B2'' ''Bob'' ''second'' 20) =
     Inr \<lparr>date = 19724, meta = [(''reference'', ''B2'')], flag = ''!'', payee = ''Bob'',
          narration = ''rent'', tags = {}, links = {},
          postings = money_postings (Categorize [Set_reference ''X9'', Set_message ''rent''] ''Rent'')
                       ''Assets:Bank:Checking'' (ex_record ''X9'' ''Bob'' ''rent'' 20)\<rparr>"
    by (simp add: Handler_handle_def get_account_def money_postings_def source_type_def
      ex_repo_def ex_accounts_def ex_record_def)
  from h replacement_before_use_except_reference[OF h] show ?thesis by blast
qed

text \<open>
  C7 as stated fails: with the replacement \<open>reference := X9\<close> the replaced record has the
  reference X9, and the metadata of the transaction still has B2.
\<close>

theorem metadata_from_replaced_record_counterexample:
  "dataclasses_replace (ex_record ''B2'' ''Bob'' ''second'' 20)
     (replacements (Categorize [Set_reference ''X9'', Set_message ''rent''] ''Rent'')) =
     Inr (ex_record ''X9'' ''Bob'' ''rent'' 20) \<and>
   handle (Categorize [Set_reference ''X9'', Set_message ''rent''] ''Rent'') ex_repo
     (ex_record ''B2'' ''Bob'' ''second'' 20) =
     Inr \<lparr>date = 19724, meta = [(''reference'', ''B2'')], flag = ''!'', payee = ''Bob'',
          narration = ''rent'', tags = {}, links = {},
          postings = money_postings (Categorize [Set_reference ''X9'', Set_message ''rent''] ''Rent'')
                       ''Assets:Bank:Checking'' (ex_record ''X9'' ''Bob'' ''rent'' 20)\<rparr> \<and>
   reference (ex_record ''X9'' ''Bob'' ''rent'' 20) \<noteq> ''B2''"
  by (simp add: Handler_handle_def get_account_def money_postings_def source_type_def
      ex_repo_def ex_accounts_def ex_record_def)

section \<open>Loading: what the index of the extracts holds\<close>

lemma map_of_index_txns:
  "map_of (index_txns txns m) k =
     (if k \<noteq> [] \<and> (\<exists>x\<in>set txns. reference x = k)
      then Some (last (filter (\<lambda>x. reference x = k) txns))
      else map_of m k)"
proof (induction txns arbitrary: m)
  case Nil
  then show ?case by simp
next
  case (Cons x xs)
  show ?case
    by (auto simp add: Cons.IH update_conv' filter_empty_conv)
qed

lemma load_files_result:
  "load_files fs repo = Inr repo' \<Longrightarrow>
     xl_txns repo' = xl_txns repo @ concat (map rows fs) \<and>
     filters repo' = filters repo \<and> accounts repo' = accounts repo \<and>
     bc_txn_map repo' = bc_txn_map repo \<and>
     (\<forall>k. map_of (xl_txn_map repo') k =
        (if k \<noteq> [] \<and> (\<exists>x\<in>set (concat (map rows fs)). reference x = k)
         then Some (last (filter (\<lambda>x. reference x = k) (concat (map rows fs))))
         else map_of (xl_txn_map repo) k))"
proof (induction fs arbitrary: repo)
  case Nil
  then show ?case by simp
next
  case (Cons f fs)
  from Cons.prems obtain txns where f: "import_file f = Some txns"
    and rest: "load_files fs (repo\<lparr>xl_txns := xl_txns repo @ txns,
                  xl_txn_map := index_txns txns (xl_txn_map repo)\<rparr>) = Inr repo'"
    by (auto split: option.splits)
  from f have txns: "txns = rows f" by (auto simp: import_file_def split: if_splits)
  note IH = Cons.IH[OF rest]
  show ?case
    using IH by (auto simp add: txns map_of_index_txns filter_empty_conv)
qed

lemma load_extracts_map:
  assumes "load_extracts files repo0 = Inr repo"
  shows "map_of (xl_txn_map repo) k =
           (if k \<noteq> [] \<and> (\<exists>x\<in>set (xl_txns repo). reference x = k)
            then Some (last (filter (\<lambda>x. reference x = k) (xl_txns repo)))
            else None)"
  using load_files_result[OF assms[unfolded load_extracts_def]] by simp

lemma load_extracts_fields:
  assumes "load_extracts files repo0 = Inr repo"
  shows "xl_txns repo = concat (map rows files)" "filters repo = filters repo0"
    "accounts repo = accounts repo0" "bc_txn_map repo = bc_txn_map repo0"
  using load_files_result[OF assms[unfolded load_extracts_def]] by simp_all

lemma last_filter_split:
  assumes "\<exists>x\<in>set xs. P x"
  shows "\<exists>pre post. xs = pre @ last (filter P xs) # post \<and> P (last (filter P xs)) \<and> (\<forall>y\<in>set post. \<not> P y)"
proof -
  from split_list_last_prop[OF assms] obtain ys x zs
    where xs: "xs = ys @ x # zs" and px: "P x" and zs: "\<forall>z\<in>set zs. \<not> P z" by blast
  from zs have "filter P zs = []" by (simp add: filter_empty_conv)
  with px have l: "last (filter P xs) = x" by (simp add: xs)
  have "xs = ys @ last (filter P xs) # zs" by (subst l) (rule xs)
  moreover have "P (last (filter P xs))" by (subst l) (rule px)
  ultimately show ?thesis using zs by blast
qed

lemma indexed_record:
  assumes "load_extracts files repo0 = Inr repo" and "map_of (xl_txn_map repo) k = Some x"
  shows "k \<noteq> [] \<and> reference x = k \<and>
         (\<exists>pre post. xl_txns repo = pre @ x # post \<and> (\<forall>y\<in>set post. reference y \<noteq> k))"
proof -
  from assms have k: "k \<noteq> []" and ex: "\<exists>y\<in>set (xl_txns repo). reference y = k"
    and x: "x = last (filter (\<lambda>y. reference y = k) (xl_txns repo))"
    by (auto simp: load_extracts_map[OF assms(1)] split: if_splits)
  from last_filter_split[of "xl_txns repo" "\<lambda>y. reference y = k", OF ex] x k
  show ?thesis by auto
qed

lemma distinct_keys_index_txns:
  "distinct (map fst m) \<Longrightarrow> distinct (map fst (index_txns txns m))"
  by (induction txns arbitrary: m) (simp_all add: distinct_update)

lemma distinct_keys_load_files:
  "load_files fs repo = Inr repo' \<Longrightarrow> distinct (map fst (xl_txn_map repo)) \<Longrightarrow>
     distinct (map fst (xl_txn_map repo'))"
proof (induction fs arbitrary: repo)
  case Nil
  then show ?case by simp
next
  case (Cons f fs)
  from Cons.prems(1) obtain txns where
    rest: "load_files fs (repo\<lparr>xl_txns := xl_txns repo @ txns,
                  xl_txn_map := index_txns txns (xl_txn_map repo)\<rparr>) = Inr repo'"
    by (auto split: option.splits)
  show ?case
    by (rule Cons.IH[OF rest]) (simp add: distinct_keys_index_txns Cons.prems(2))
qed

lemma distinct_keys_load_extracts:
  "load_extracts files repo0 = Inr repo \<Longrightarrow> distinct (map fst (xl_txn_map repo))"
  unfolding load_extracts_def by (erule distinct_keys_load_files) simp

section \<open>The classification loop\<close>

lemma classify_loop_result:
  assumes inv: "\<And>k x. map_of (xl_txn_map repo) k = Some x \<Longrightarrow> reference x = k"
  shows "distinct ids \<Longrightarrow> set ids \<inter> processed = {} \<Longrightarrow>
         classify_loop repo ids processed acc = Inr ts \<Longrightarrow>
         \<exists>new. ts = acc @ new \<and>
           list_all2 (\<lambda>k t. \<exists>x. map_of (xl_txn_map repo) k = Some x \<and>
              handle (select_handler (filters repo) x) repo x = Inr t) ids new"
proof (induction ids arbitrary: processed acc)
  case Nil
  then show ?case by simp
next
  case (Cons k ids)
  from Cons.prems(3) obtain x where x: "map_of (xl_txn_map repo) k = Some x"
    by (auto split: option.splits)
  have ref: "reference x = k" using inv[OF x] .
  with Cons.prems(2) have np: "reference x \<notin> processed" by auto
  from Cons.prems(3) x np obtain t where
    t: "handle (select_handler (filters repo) x) repo x = Inr t"
    and rest: "classify_loop repo ids (insert (reference x) processed) (acc @ [t]) = Inr ts"
    by (auto split: sum.splits)
  have d: "distinct ids" and dj: "set ids \<inter> insert (reference x) processed = {}"
    using Cons.prems(1,2) ref by auto
  from Cons.IH[OF d dj rest] obtain new where
    "ts = (acc @ [t]) @ new" and
    l: "list_all2 (\<lambda>k t. \<exists>x. map_of (xl_txn_map repo) k = Some x \<and>
              handle (select_handler (filters repo) x) repo x = Inr t) ids new" by blast
  then have "ts = acc @ (t # new)" by simp
  moreover have "list_all2 (\<lambda>k t. \<exists>x. map_of (xl_txn_map repo) k = Some x \<and>
              handle (select_handler (filters repo) x) repo x = Inr t) (k # ids) (t # new)"
    using l x t by simp
  ultimately show ?case by blast
qed

lemma classify_loop_succeeds:
  assumes inv: "\<And>k x. map_of (xl_txn_map repo) k = Some x \<Longrightarrow> reference x = k"
  shows "distinct ids \<Longrightarrow> set ids \<inter> processed = {} \<Longrightarrow>
         \<forall>k\<in>set ids. \<exists>x t. map_of (xl_txn_map repo) k = Some x \<and>
            handle (select_handler (filters repo) x) repo x = Inr t \<Longrightarrow>
         \<exists>ts. classify_loop repo ids processed acc = Inr ts"
proof (induction ids arbitrary: processed acc)
  case Nil
  then show ?case by simp
next
  case (Cons k ids)
  from Cons.prems(3) obtain x t where x: "map_of (xl_txn_map repo) k = Some x"
    and t: "handle (select_handler (filters repo) x) repo x = Inr t" by auto
  have ref: "reference x = k" using inv[OF x] .
  with Cons.prems(2) have np: "reference x \<notin> processed" by auto
  have d: "distinct ids" and dj: "set ids \<inter> insert (reference x) processed = {}"
    using Cons.prems(1,2) ref by auto
  have rest: "\<forall>k\<in>set ids. \<exists>x t. map_of (xl_txn_map repo) k = Some x \<and>
            handle (select_handler (filters repo) x) repo x = Inr t"
    using Cons.prems(3) by simp
  from Cons.IH[OF d dj rest, of "acc @ [t]"] x t np show ?case by simp
qed

lemma distinct_map_insort_key:
  "distinct (map f (insort_key g x xs)) \<longleftrightarrow> f x \<notin> f ` set xs \<and> distinct (map f xs)"
  by (induction xs) (auto simp: set_insort_key)

lemma distinct_map_sort_key: "distinct (map f (sort_key g xs)) = distinct (map f xs)"
  by (induction xs) (simp_all add: distinct_map_insort_key)

lemma filter_eq_le_1: "distinct (map f xs) \<Longrightarrow> length (filter (\<lambda>x. f x = v) xs) \<le> 1"
proof (induction xs)
  case Nil
  then show ?case by simp
next
  case (Cons a xs)
  show ?case
  proof (cases "f a = v")
    case True
    from Cons.prems have "f a \<notin> f ` set xs" by simp
    with True have "\<forall>x\<in>set xs. f x \<noteq> v" by blast
    then have "filter (\<lambda>x. f x = v) xs = []" by (simp add: filter_empty_conv)
    with True show ?thesis by simp
  next
    case False
    with Cons show ?thesis by simp
  qed
qed

lemma classify_result:
  assumes load: "load_extracts files repo0 = Inr repo"
    and en: "enumerates ids (new_txn_ids repo)"
    and c: "classify repo ids = Inr ts"
  shows "\<exists>new. ts = sort_key date new \<and>
           list_all2 (\<lambda>k t. \<exists>x. map_of (xl_txn_map repo) k = Some x \<and>
              handle (select_handler (filters repo) x) repo x = Inr t) ids new"
proof -
  from c obtain new where loop: "classify_loop repo ids {} [] = Inr new"
    and ts: "ts = sort_key date new"
    by (auto simp: classify_def split: sum.splits)
  have inv: "\<And>k x. map_of (xl_txn_map repo) k = Some x \<Longrightarrow> reference x = k"
    using indexed_record[OF load] by blast
  from en have d: "distinct ids" by (simp add: enumerates_def)
  from classify_loop_result[OF inv d _ loop] ts show ?thesis by auto
qed

lemma produced_references:
  assumes load: "load_extracts files repo0 = Inr repo"
    and l: "list_all2 (\<lambda>k t. \<exists>x. map_of (xl_txn_map repo) k = Some x \<and>
              handle (select_handler (filters repo) x) repo x = Inr t) ids new"
  shows "map meta_reference new = map Some ids"
  using l
proof (induction rule: list_all2_induct)
  case Nil
  then show ?case by simp
next
  case (Cons k ids t new)
  from Cons(1) obtain x where x: "map_of (xl_txn_map repo) k = Some x"
    and t: "handle (select_handler (filters repo) x) repo x = Inr t" by blast
  from indexed_record[OF load x] have "reference x = k" by simp
  with handle_meta_reference[OF t] Cons show ?case by simp
qed

lemma produced_reference_list:
  assumes load: "load_extracts files repo0 = Inr repo"
    and en: "enumerates ids (new_txn_ids repo)"
    and c: "classify repo ids = Inr ts"
  shows "length ts = length ids \<and> distinct (map meta_reference ts) \<and>
         set (map meta_reference ts) = Some ` set ids"
proof -
  from classify_result[OF load en c] obtain new where ts: "ts = sort_key date new"
    and l: "list_all2 (\<lambda>k t. \<exists>x. map_of (xl_txn_map repo) k = Some x \<and>
              handle (select_handler (filters repo) x) repo x = Inr t) ids new" by blast
  have refs: "map meta_reference new = map Some ids" by (rule produced_references[OF load l])
  from en have d: "distinct ids" by (simp add: enumerates_def)
  have 1: "length ts = length ids" using l ts by (simp add: list_all2_lengthD)
  have 2: "distinct (map meta_reference ts)"
  proof -
    have "distinct (map meta_reference new)"
      by (simp only: refs) (simp add: distinct_map d)
    then show ?thesis by (simp only: ts distinct_map_sort_key)
  qed
  have "set (map meta_reference ts) = meta_reference ` set new" by (simp add: ts)
  also have "\<dots> = set (map meta_reference new)" by simp
  also have "\<dots> = Some ` set ids" by (simp only: refs) simp
  finally have 3: "set (map meta_reference ts) = Some ` set ids" .
  from 1 2 3 show ?thesis by blast
qed

lemma produced_from_record:
  assumes load: "load_extracts files repo0 = Inr repo"
    and en: "enumerates ids (new_txn_ids repo)"
    and c: "classify repo ids = Inr ts"
    and t: "t \<in> set ts"
  shows "\<exists>k x. k \<in> new_txn_ids repo \<and> map_of (xl_txn_map repo) k = Some x \<and>
           handle (select_handler (filters repo) x) repo x = Inr t"
proof -
  from classify_result[OF load en c] obtain new where ts: "ts = sort_key date new"
    and l: "list_all2 (\<lambda>k t. \<exists>x. map_of (xl_txn_map repo) k = Some x \<and>
              handle (select_handler (filters repo) x) repo x = Inr t) ids new" by blast
  from t ts have "t \<in> set new" by simp
  then obtain i where i: "i < length new" and ti: "new ! i = t" by (auto simp: in_set_conv_nth)
  from l i have "ids ! i \<in> set ids" by (simp add: list_all2_lengthD)
  moreover from list_all2_nthD2[OF l i] ti obtain x where
    "map_of (xl_txn_map repo) (ids ! i) = Some x"
    "handle (select_handler (filters repo) x) repo x = Inr t" by auto
  ultimately show ?thesis using en by (auto simp: enumerates_def)
qed

section \<open>The examples, evaluated\<close>

lemma ex_load: "load_extracts ex_files ex_ledger_repo = Inr ex_loaded"
  by (simp add: load_extracts_def ex_files_def ex_ledger_repo_def ex_loaded_def import_file_def
      ex_record_def AList.update.simps)

lemma ex_new: "new_txn_ids ex_loaded = {''B2'', ''D3''}"
  by (auto simp add: new_txn_ids_def ex_loaded_def)

lemma ex_iter: "set_iter ex_env {''B2'', ''D3''} = [''D3'', ''B2'']"
  by (simp add: ex_env_def)

lemma ex_enum: "enumerates [''D3'', ''B2''] (new_txn_ids ex_loaded)"
  by (auto simp add: enumerates_def ex_new)

lemma ex_select_B2:
  "select_handler (filters ex_loaded) (ex_record ''B2'' ''Bob'' ''second'' 20) = DEFAULT_HANDLER"
  by (simp add: ex_loaded_def ex_rules_def ex_rule_def ex_record_def test_def test1_def)

lemma ex_select_D3:
  "select_handler (filters ex_loaded) (ex_record ''D3'' ''Alice'' ''fee'' 25) =
     Membership [] ''alice'' 25"
  by (simp add: ex_loaded_def ex_rules_def ex_rule_def ex_record_def test_def test1_def)

lemma ex_accounts_loaded: "accounts ex_loaded = ex_accounts"
  by (simp add: ex_loaded_def)

lemma ex_handle_B2:
  "handle DEFAULT_HANDLER ex_loaded (ex_record ''B2'' ''Bob'' ''second'' 20) = Inr ex_txn_B2"
  by (simp add: DEFAULT_HANDLER_def Handler_handle_Inr ex_accounts_loaded ex_accounts_def
      ex_txn_B2_def) (simp add: ex_record_def)

lemma ex_handle_D3:
  "handle (Membership [] ''alice'' 25) ex_loaded (ex_record ''D3'' ''Alice'' ''fee'' 25) =
     Inr ex_txn_D3"
  by (simp add: Membership_handle_def Handler_handle_def get_account_def money_postings_def
        membership_postings_def POS_1_def Decimal_neg_1 source_type_def ex_accounts_loaded ex_accounts_def
        ex_record_def ex_txn_D3_def)

lemma ex_lookup:
  "map_of (xl_txn_map ex_loaded) ''B2'' = Some (ex_record ''B2'' ''Bob'' ''second'' 20)"
  "map_of (xl_txn_map ex_loaded) ''D3'' = Some (ex_record ''D3'' ''Alice'' ''fee'' 25)"
  by (simp_all add: ex_loaded_def)

lemma ex_refs:
  "reference (ex_record r w m a) = r"
  by (simp add: ex_record_def)

lemma ex_dates: "date ex_txn_B2 = 19724" "date ex_txn_D3 = 19724"
  by (simp_all add: ex_txn_B2_def ex_txn_D3_def)

lemma ex_classify: "classify ex_loaded [''D3'', ''B2''] = Inr [ex_txn_D3, ex_txn_B2]"
  by (simp add: classify_def ex_lookup ex_refs ex_select_B2 ex_select_D3 ex_handle_B2
      ex_handle_D3 ex_dates del: handle.simps)

lemma ex_flags: "flag ex_txn_B2 = ''?''" "flag ex_txn_D3 = ''!''"
  by (simp_all add: ex_txn_B2_def ex_txn_D3_def)

lemma ex_slot: "find_slot (slot_taken ex_env) (Suc 0) = Some 2"
  by (simp add: find_slot.simps ex_env_def)

lemma ex_orphans: "orphan_check ex_env ex_loaded = Inr []"
  by (simp add: orphan_check_def ex_loaded_def)

lemma ex_run:
  "cmd_import ex_env ex_loaded =
     Inr \<lparr>echoed = [(Text ''TODOs:'', False), (Check_auto 2, False), (Fix_manual 2, False)],
          printed = None,
          written = [(Auto_file 2, [ex_txn_D3]), (Manual_file 2, [ex_txn_B2])],
          rescanned = True, logged_error = False\<rparr>"
  by (simp add: cmd_import_def ex_orphans ex_new ex_iter ex_classify emit_def ex_slot
      auto_entries_def manual_entries_def ex_flags) (simp add: ex_env_def)

lemma ex_xl_txns:
  "xl_txns ex_loaded =
     [ex_record ''A1'' ''Shop'' ''groceries'' (- 12), ex_record ''B2'' ''Bob'' ''first'' 10,
      ex_record [] ''Alice'' ''no reference'' 25, ex_record ''B2'' ''Bob'' ''second'' 20,
      ex_record ''D3'' ''Alice'' ''fee'' 25]"
  by (simp add: ex_loaded_def)

lemma ex_select_first:
  "select_handler (filters ex_loaded) (ex_record ''B2'' ''Bob'' ''first'' 10) = DEFAULT_HANDLER"
  by (simp add: ex_loaded_def ex_rules_def ex_rule_def ex_record_def test_def test1_def)

lemma ex_meta_refs:
  "meta_reference ex_txn_B2 = Some ''B2''" "meta_reference ex_txn_D3 = Some ''D3''"
  by (simp_all add: meta_reference_def ex_txn_B2_def ex_txn_D3_def)

section \<open>The run: partition, duplicates, empty references, nothing to do\<close>

text \<open>
  C1, as the code has it. A run that writes its output puts every produced transaction
  with the flag \<open>!\<close> (confirmed) into the automatic file and not into the manual one, and
  every produced transaction with the flag \<open>?\<close> (provisional) into the manual file and
  not into the automatic one. The flag is \<open>?\<close> for the base class (the default handler
  among its instances) and for a record a Membership handler hands to the default handler,
  \<open>!\<close> for Categorize and for Membership on its monthly cost.
\<close>

theorem partition_by_flag:
  assumes run: "cmd_import e repo = Inr out"
    and wet: "\<not> dry_run e"
    and slot: "find_slot (slot_taken e) 1 = Some i"
    and new: "new_txn_ids repo \<noteq> {}"
  shows "\<exists>ts. classify repo (set_iter e (new_txn_ids repo)) = Inr ts \<and>
           written out = [(Auto_file i, auto_entries ts), (Manual_file i, manual_entries ts)] \<and>
           (\<forall>t\<in>set ts.
              (flag t = ''!'' \<longrightarrow> t \<in> set (auto_entries ts) \<and> t \<notin> set (manual_entries ts)) \<and>
              (flag t = ''?'' \<longrightarrow> t \<in> set (manual_entries ts) \<and> t \<notin> set (auto_entries ts))) \<and>
           (\<forall>h x t. handle h repo x = Inr t \<longrightarrow>
              flag t = (if delegates_to_default h x then ''?'' else handler_flag h))"
proof -
  from run new obtain warned ts where
    c: "classify repo (set_iter e (new_txn_ids repo)) = Inr ts"
    and out: "out = emit e warned ts"
    by (auto simp: cmd_import_def split: sum.splits)
  from out wet slot have
    "written out = [(Auto_file i, auto_entries ts), (Manual_file i, manual_entries ts)]"
    by (simp add: emit_def)
  moreover have "\<forall>t\<in>set ts.
              (flag t = ''!'' \<longrightarrow> t \<in> set (auto_entries ts) \<and> t \<notin> set (manual_entries ts)) \<and>
              (flag t = ''?'' \<longrightarrow> t \<in> set (manual_entries ts) \<and> t \<notin> set (auto_entries ts))"
    by (simp add: auto_entries_def manual_entries_def)
  ultimately show ?thesis using c handle_flag by blast
qed

theorem partition_by_flag_witness:
  "cmd_import ex_env ex_loaded =
     Inr \<lparr>echoed = [(Text ''TODOs:'', False), (Check_auto 2, False), (Fix_manual 2, False)],
          printed = None,
          written = [(Auto_file 2, [ex_txn_D3]), (Manual_file 2, [ex_txn_B2])],
          rescanned = True, logged_error = False\<rparr> \<and>
   \<not> dry_run ex_env \<and> find_slot (slot_taken ex_env) 1 = Some 2 \<and>
   new_txn_ids ex_loaded \<noteq> {} \<and>
   classify ex_loaded (set_iter ex_env (new_txn_ids ex_loaded)) = Inr [ex_txn_D3, ex_txn_B2] \<and>
   auto_entries [ex_txn_D3, ex_txn_B2] = [ex_txn_D3] \<and>
   manual_entries [ex_txn_D3, ex_txn_B2] = [ex_txn_B2] \<and>
   flag ex_txn_D3 = ''!'' \<and> ex_txn_D3 \<in> set (auto_entries [ex_txn_D3, ex_txn_B2]) \<and>
   flag ex_txn_B2 = ''?'' \<and> ex_txn_B2 \<in> set (manual_entries [ex_txn_D3, ex_txn_B2])"
proof -
  have wet: "\<not> dry_run ex_env" by (simp add: ex_env_def)
  have slot: "find_slot (slot_taken ex_env) 1 = Some 2" using ex_slot by simp
  have new: "new_txn_ids ex_loaded \<noteq> {}" by (simp add: ex_new)
  have c: "classify ex_loaded (set_iter ex_env (new_txn_ids ex_loaded)) = Inr [ex_txn_D3, ex_txn_B2]"
    by (simp only: ex_new ex_iter ex_classify)
  have a: "auto_entries [ex_txn_D3, ex_txn_B2] = [ex_txn_D3]"
    by (simp add: auto_entries_def ex_flags)
  have m: "manual_entries [ex_txn_D3, ex_txn_B2] = [ex_txn_B2]"
    by (simp add: manual_entries_def ex_flags)
  from partition_by_flag[OF ex_run wet slot new] c
  have "\<forall>t\<in>set [ex_txn_D3, ex_txn_B2].
              (flag t = ''!'' \<longrightarrow> t \<in> set (auto_entries [ex_txn_D3, ex_txn_B2]) \<and>
                 t \<notin> set (manual_entries [ex_txn_D3, ex_txn_B2])) \<and>
              (flag t = ''?'' \<longrightarrow> t \<in> set (manual_entries [ex_txn_D3, ex_txn_B2]) \<and>
                 t \<notin> set (auto_entries [ex_txn_D3, ex_txn_B2]))"
    by auto
  with ex_flags have "ex_txn_D3 \<in> set (auto_entries [ex_txn_D3, ex_txn_B2])"
    "ex_txn_B2 \<in> set (manual_entries [ex_txn_D3, ex_txn_B2])" by simp_all
  with ex_run wet slot new c a m ex_flags show ?thesis by blast
qed

text \<open>
  C1 as stated fails: in the example run the provisional transaction for B2, from the
  default handler, is written to the manual file, and the confirmed one for D3, from the
  Membership handler, to the automatic file.
\<close>

theorem provisional_to_automatic_counterexample:
  "cmd_import ex_env ex_loaded =
     Inr \<lparr>echoed = [(Text ''TODOs:'', False), (Check_auto 2, False), (Fix_manual 2, False)],
          printed = None,
          written = [(Auto_file 2, [ex_txn_D3]), (Manual_file 2, [ex_txn_B2])],
          rescanned = True, logged_error = False\<rparr> \<and>
   flag ex_txn_B2 = ''?'' \<and> flag ex_txn_D3 = ''!'' \<and>
   handle DEFAULT_HANDLER ex_loaded (ex_record ''B2'' ''Bob'' ''second'' 20) = Inr ex_txn_B2 \<and>
   handle (Membership [] ''alice'' 25) ex_loaded (ex_record ''D3'' ''Alice'' ''fee'' 25) =
     Inr ex_txn_D3"
  using ex_run ex_flags ex_handle_B2 ex_handle_D3 by blast

text \<open>
  C2, as the code has it. After loading, a run returns at most one transaction for a
  reference, and that transaction is the one the handler chosen for the last record with
  this reference, in the sequence of the extract records, returns for it.
\<close>

theorem last_duplicate_is_classified:
  assumes load: "load_extracts files repo0 = Inr repo"
    and en: "enumerates ids (new_txn_ids repo)"
    and c: "classify repo ids = Inr ts"
  shows "length (filter (\<lambda>t. meta_reference t = Some r) ts) \<le> 1 \<and>
         (\<forall>t\<in>set ts. meta_reference t = Some r \<longrightarrow>
            (\<exists>pre x post. xl_txns repo = pre @ x # post \<and> reference x = r \<and>
               (\<forall>y\<in>set post. reference y \<noteq> r) \<and>
               handle (select_handler (filters repo) x) repo x = Inr t))"
proof (intro conjI ballI impI)
  from produced_reference_list[OF load en c]
  have "distinct (map meta_reference ts)" by blast
  then show "length (filter (\<lambda>t. meta_reference t = Some r) ts) \<le> 1"
    by (rule filter_eq_le_1)
next
  fix t assume t: "t \<in> set ts" and r: "meta_reference t = Some r"
  from produced_from_record[OF load en c t] obtain k x where
    x: "map_of (xl_txn_map repo) k = Some x"
    and h: "handle (select_handler (filters repo) x) repo x = Inr t" by blast
  from indexed_record[OF load x] obtain pre post where
    ref: "reference x = k" and sp: "xl_txns repo = pre @ x # post"
    and post: "\<forall>y\<in>set post. reference y \<noteq> k" by blast
  from handle_meta_reference[OF h] r ref have "k = r" by simp
  with ref sp post h show "\<exists>pre x post. xl_txns repo = pre @ x # post \<and> reference x = r \<and>
               (\<forall>y\<in>set post. reference y \<noteq> r) \<and>
               handle (select_handler (filters repo) x) repo x = Inr t" by blast
qed

theorem last_duplicate_is_classified_witness:
  "load_extracts ex_files ex_ledger_repo = Inr ex_loaded \<and>
   enumerates [''D3'', ''B2''] (new_txn_ids ex_loaded) \<and>
   classify ex_loaded [''D3'', ''B2''] = Inr [ex_txn_D3, ex_txn_B2] \<and>
   length (filter (\<lambda>t. meta_reference t = Some ''B2'') [ex_txn_D3, ex_txn_B2]) \<le> 1 \<and>
   meta_reference ex_txn_B2 = Some ''B2'' \<and>
   (\<exists>pre x post. xl_txns ex_loaded = pre @ x # post \<and> reference x = ''B2'' \<and>
      (\<forall>y\<in>set post. reference y \<noteq> ''B2'') \<and>
      handle (select_handler (filters ex_loaded) x) ex_loaded x = Inr ex_txn_B2)"
proof -
  note th = last_duplicate_is_classified[OF ex_load ex_enum ex_classify, of "''B2''"]
  from th have 1: "length (filter (\<lambda>t. meta_reference t = Some ''B2'') [ex_txn_D3, ex_txn_B2]) \<le> 1"
    by blast
  from th ex_meta_refs(1) have 2: "\<exists>pre x post. xl_txns ex_loaded = pre @ x # post \<and>
      reference x = ''B2'' \<and> (\<forall>y\<in>set post. reference y \<noteq> ''B2'') \<and>
      handle (select_handler (filters ex_loaded) x) ex_loaded x = Inr ex_txn_B2"
    by simp
  from ex_load ex_enum ex_classify 1 ex_meta_refs(1) 2 show ?thesis by blast
qed

text \<open>
  C2 as stated fails: of the two records with the reference B2 the run classifies the
  second; what it returns for B2 is not what the handler returns for the first.
\<close>

theorem first_duplicate_classified_counterexample:
  "load_extracts ex_files ex_ledger_repo = Inr ex_loaded \<and>
   xl_txns ex_loaded =
     [ex_record ''A1'' ''Shop'' ''groceries'' (- 12), ex_record ''B2'' ''Bob'' ''first'' 10,
      ex_record [] ''Alice'' ''no reference'' 25, ex_record ''B2'' ''Bob'' ''second'' 20,
      ex_record ''D3'' ''Alice'' ''fee'' 25] \<and>
   reference (ex_record ''B2'' ''Bob'' ''first'' 10) = ''B2'' \<and>
   reference (ex_record ''B2'' ''Bob'' ''second'' 20) = ''B2'' \<and>
   enumerates [''D3'', ''B2''] (new_txn_ids ex_loaded) \<and>
   classify ex_loaded [''D3'', ''B2''] = Inr [ex_txn_D3, ex_txn_B2] \<and>
   handle (select_handler (filters ex_loaded) (ex_record ''B2'' ''Bob'' ''second'' 20)) ex_loaded
     (ex_record ''B2'' ''Bob'' ''second'' 20) = Inr ex_txn_B2 \<and>
   handle (select_handler (filters ex_loaded) (ex_record ''B2'' ''Bob'' ''first'' 10)) ex_loaded
     (ex_record ''B2'' ''Bob'' ''first'' 10) \<noteq> Inr ex_txn_B2 \<and>
   handle (select_handler (filters ex_loaded) (ex_record ''B2'' ''Bob'' ''first'' 10)) ex_loaded
     (ex_record ''B2'' ''Bob'' ''first'' 10) \<noteq> Inr ex_txn_D3"
proof -
  have 1: "handle (select_handler (filters ex_loaded) (ex_record ''B2'' ''Bob'' ''second'' 20))
     ex_loaded (ex_record ''B2'' ''Bob'' ''second'' 20) = Inr ex_txn_B2"
    by (simp only: ex_select_B2 ex_handle_B2)
  have f: "handle (select_handler (filters ex_loaded) (ex_record ''B2'' ''Bob'' ''first'' 10))
     ex_loaded (ex_record ''B2'' ''Bob'' ''first'' 10) =
       Inr \<lparr>date = 19724, meta = [(''reference'', ''B2'')], flag = ''?'', payee = ''Bob'',
            narration = ''first'', tags = {}, links = {},
            postings = money_postings DEFAULT_HANDLER ''Assets:Bank:Checking''
                   (ex_record ''B2'' ''Bob'' ''first'' 10)\<rparr>"
    by (simp add: ex_select_first DEFAULT_HANDLER_def Handler_handle_Inr ex_accounts_loaded
        ex_accounts_def) (simp add: ex_record_def)
  have 2: "handle (select_handler (filters ex_loaded) (ex_record ''B2'' ''Bob'' ''first'' 10))
     ex_loaded (ex_record ''B2'' ''Bob'' ''first'' 10) \<noteq> Inr ex_txn_B2"
    by (simp add: f ex_txn_B2_def)
  have 3: "handle (select_handler (filters ex_loaded) (ex_record ''B2'' ''Bob'' ''first'' 10))
     ex_loaded (ex_record ''B2'' ''Bob'' ''first'' 10) \<noteq> Inr ex_txn_D3"
    by (simp add: f ex_txn_D3_def)
  from ex_load ex_xl_txns ex_refs ex_enum ex_classify 1 2 3 show ?thesis by blast
qed

text \<open>
  C9. After loading, no entry of the index has the empty reference, as key or in its
  record, the empty reference is not among the new identifiers, and every transaction a
  run returns is the result of the chosen handler on an extract record with a non-empty
  reference, which it carries in its metadata; whatever the rules are.
\<close>

theorem empty_reference_never_classified:
  assumes load: "load_extracts files repo0 = Inr repo"
  shows "[] \<notin> fst ` set (xl_txn_map repo) \<and>
         (\<forall>x \<in> snd ` set (xl_txn_map repo). reference x \<noteq> []) \<and>
         [] \<notin> new_txn_ids repo \<and>
         (\<forall>ids ts. enumerates ids (new_txn_ids repo) \<longrightarrow> classify repo ids = Inr ts \<longrightarrow>
            (\<forall>t\<in>set ts. meta_reference t \<noteq> Some [] \<and>
               (\<exists>x\<in>set (xl_txns repo). reference x \<noteq> [] \<and>
                  handle (select_handler (filters repo) x) repo x = Inr t)))"
proof -
  note dk = distinct_keys_load_extracts[OF load]
  have entry: "k \<noteq> [] \<and> reference x = k \<and> x \<in> set (xl_txns repo)"
    if "(k, x) \<in> set (xl_txn_map repo)" for k x
  proof -
    from that dk have "map_of (xl_txn_map repo) k = Some x" by simp
    from indexed_record[OF load this] show ?thesis by auto
  qed
  have 1: "[] \<notin> fst ` set (xl_txn_map repo)" using entry by force
  have 2: "\<forall>x \<in> snd ` set (xl_txn_map repo). reference x \<noteq> []" using entry by force
  have 3: "[] \<notin> new_txn_ids repo" using 1 by (simp add: new_txn_ids_def)
  have 4: "meta_reference t \<noteq> Some [] \<and>
               (\<exists>x\<in>set (xl_txns repo). reference x \<noteq> [] \<and>
                  handle (select_handler (filters repo) x) repo x = Inr t)"
    if en: "enumerates ids (new_txn_ids repo)" and c: "classify repo ids = Inr ts"
      and t: "t \<in> set ts" for ids ts t
  proof -
    from produced_from_record[OF load en c t] obtain k x where
      x: "map_of (xl_txn_map repo) k = Some x"
      and h: "handle (select_handler (filters repo) x) repo x = Inr t" by blast
    from x have "(k, x) \<in> set (xl_txn_map repo)" by (rule map_of_SomeD)
    from entry[OF this] handle_meta_reference[OF h] h show ?thesis by auto
  qed
  from 1 2 3 4 show ?thesis by blast
qed

theorem empty_reference_never_classified_witness:
  "load_extracts ex_files ex_ledger_repo = Inr ex_loaded \<and>
   ex_record [] ''Alice'' ''no reference'' 25 \<in> set (xl_txns ex_loaded) \<and>
   reference (ex_record [] ''Alice'' ''no reference'' 25) = [] \<and>
   test (filters ex_loaded ! 1) (ex_record [] ''Alice'' ''no reference'' 25) \<and>
   [] \<notin> fst ` set (xl_txn_map ex_loaded) \<and>
   [] \<notin> new_txn_ids ex_loaded \<and>
   enumerates [''D3'', ''B2''] (new_txn_ids ex_loaded) \<and>
   classify ex_loaded [''D3'', ''B2''] = Inr [ex_txn_D3, ex_txn_B2] \<and>
   meta_reference ex_txn_D3 \<noteq> Some [] \<and> meta_reference ex_txn_B2 \<noteq> Some [] \<and>
   (\<exists>x\<in>set (xl_txns ex_loaded). reference x \<noteq> [] \<and>
      handle (select_handler (filters ex_loaded) x) ex_loaded x = Inr ex_txn_D3) \<and>
   (\<exists>x\<in>set (xl_txns ex_loaded). reference x \<noteq> [] \<and>
      handle (select_handler (filters ex_loaded) x) ex_loaded x = Inr ex_txn_B2)"
proof -
  note th = empty_reference_never_classified[OF ex_load]
  have a: "ex_record [] ''Alice'' ''no reference'' 25 \<in> set (xl_txns ex_loaded)"
    by (simp add: ex_xl_txns)
  have b: "test (filters ex_loaded ! 1) (ex_record [] ''Alice'' ''no reference'' 25)"
    by (simp add: ex_loaded_def ex_rules_def ex_rule_def ex_record_def test_def test1_def)
  from th have c: "[] \<notin> fst ` set (xl_txn_map ex_loaded)" "[] \<notin> new_txn_ids ex_loaded"
    by blast+
  from th ex_enum ex_classify have d: "\<forall>t\<in>set [ex_txn_D3, ex_txn_B2].
      meta_reference t \<noteq> Some [] \<and>
      (\<exists>x\<in>set (xl_txns ex_loaded). reference x \<noteq> [] \<and>
          handle (select_handler (filters ex_loaded) x) ex_loaded x = Inr t)"
    by blast
  from d have e: "meta_reference ex_txn_D3 \<noteq> Some []" "meta_reference ex_txn_B2 \<noteq> Some []"
    "\<exists>x\<in>set (xl_txns ex_loaded). reference x \<noteq> [] \<and>
      handle (select_handler (filters ex_loaded) x) ex_loaded x = Inr ex_txn_D3"
    "\<exists>x\<in>set (xl_txns ex_loaded). reference x \<noteq> [] \<and>
      handle (select_handler (filters ex_loaded) x) ex_loaded x = Inr ex_txn_B2"
    by simp_all
  from ex_load a ex_refs b c ex_enum ex_classify e show ?thesis by blast
qed

text \<open>
  C10. After loading, the transactions the classify step returns are as many as the new
  identifiers (extract identifiers not in the ledger), their metadata references are
  pairwise distinct and are exactly the new identifiers. The step returns them whenever
  the chosen handler returns a transaction for the record of every new identifier.
\<close>

theorem one_transaction_per_new_identifier:
  assumes load: "load_extracts files repo0 = Inr repo"
    and en: "enumerates ids (new_txn_ids repo)"
  shows "(\<forall>ts. classify repo ids = Inr ts \<longrightarrow>
            length ts = card (new_txn_ids repo) \<and>
            distinct (map meta_reference ts) \<and>
            set (map meta_reference ts) = Some ` new_txn_ids repo) \<and>
         ((\<forall>k\<in>new_txn_ids repo. \<exists>x t. map_of (xl_txn_map repo) k = Some x \<and>
              handle (select_handler (filters repo) x) repo x = Inr t) \<longrightarrow>
          (\<exists>ts. classify repo ids = Inr ts))"
proof (intro conjI allI impI)
  from en have d: "distinct ids" and s: "set ids = new_txn_ids repo"
    by (simp_all add: enumerates_def)
  have card: "length ids = card (new_txn_ids repo)"
    using d s distinct_card by fastforce
  {
    fix ts assume c: "classify repo ids = Inr ts"
    from produced_reference_list[OF load en c] card s
    show "length ts = card (new_txn_ids repo)" "distinct (map meta_reference ts)"
      "set (map meta_reference ts) = Some ` new_txn_ids repo" by simp_all
  }
  assume all: "\<forall>k\<in>new_txn_ids repo. \<exists>x t. map_of (xl_txn_map repo) k = Some x \<and>
              handle (select_handler (filters repo) x) repo x = Inr t"
  have inv: "\<And>k x. map_of (xl_txn_map repo) k = Some x \<Longrightarrow> reference x = k"
    using indexed_record[OF load] by blast
  from all s have "\<forall>k\<in>set ids. \<exists>x t. map_of (xl_txn_map repo) k = Some x \<and>
              handle (select_handler (filters repo) x) repo x = Inr t" by simp
  from classify_loop_succeeds[OF inv d _ this, of "{}" "[]"]
  obtain new where "classify_loop repo ids {} [] = Inr new" by auto
  then have "classify repo ids = Inr (sort_key date new)" by (simp add: classify_def)
  then show "\<exists>ts. classify repo ids = Inr ts" by (rule exI)
qed

theorem one_transaction_per_new_identifier_witness:
  "load_extracts ex_files ex_ledger_repo = Inr ex_loaded \<and>
   enumerates [''D3'', ''B2''] (new_txn_ids ex_loaded) \<and>
   classify ex_loaded [''D3'', ''B2''] = Inr [ex_txn_D3, ex_txn_B2] \<and>
   new_txn_ids ex_loaded = {''B2'', ''D3''} \<and>
   length [ex_txn_D3, ex_txn_B2] = card (new_txn_ids ex_loaded) \<and>
   distinct (map meta_reference [ex_txn_D3, ex_txn_B2]) \<and>
   set (map meta_reference [ex_txn_D3, ex_txn_B2]) = Some ` new_txn_ids ex_loaded"
proof -
  note th = one_transaction_per_new_identifier[OF ex_load ex_enum, THEN conjunct1, rule_format,
      OF ex_classify]
  from th have 1: "length [ex_txn_D3, ex_txn_B2] = card (new_txn_ids ex_loaded)"
    by (rule conjunct1)
  from th have 2: "distinct (map meta_reference [ex_txn_D3, ex_txn_B2])"
    by (rule conjunct2[THEN conjunct1])
  from th have 3: "set (map meta_reference [ex_txn_D3, ex_txn_B2]) = Some ` new_txn_ids ex_loaded"
    by (rule conjunct2[THEN conjunct2])
  show ?thesis
    by (intro conjI) (fact ex_load ex_enum ex_classify ex_new 1 2 3)+
qed

lemma orphan_lines_succeeds:
  "set ids \<subseteq> fst ` set (bc_txn_map repo) \<Longrightarrow> \<exists>ls. orphan_lines repo ids = Inr ls"
proof (induction ids)
  case Nil
  then show ?case by simp
next
  case (Cons k ids)
  then have "k \<in> fst ` set (bc_txn_map repo)" by simp
  then obtain txn where "map_of (bc_txn_map repo) k = Some txn"
    by (metis domD dom_map_of_conv_image_fst)
  moreover from Cons obtain ls where "orphan_lines repo ids = Inr ls" by auto
  ultimately show ?case by simp
qed

text \<open>
  C8. When no extract identifier is new, the run returns normally: after the lines of the
  orphan check it shows "No new transactions found", it prints no transactions, writes no
  file and does not rescan the ledger.
\<close>

theorem nothing_to_do:
  assumes empty: "new_txn_ids repo = {}"
    and en: "enumerates (set_iter e (set (map fst (bc_txn_map repo)) - set (map fst (xl_txn_map repo))))
               (set (map fst (bc_txn_map repo)) - set (map fst (xl_txn_map repo)))"
  shows "\<exists>warned. orphan_check e repo = Inr warned \<and>
           cmd_import e repo =
             Inr \<lparr>echoed = warned @ [(Text ''No new transactions found'', True)],
                  printed = None, written = [], rescanned = False, logged_error = False\<rparr>"
proof -
  let ?orphans = "set (map fst (bc_txn_map repo)) - set (map fst (xl_txn_map repo))"
  from en have "set (set_iter e ?orphans) \<subseteq> fst ` set (bc_txn_map repo)"
    by (auto simp: enumerates_def)
  from orphan_lines_succeeds[OF this] obtain ls where
    "orphan_lines repo (set_iter e ?orphans) = Inr ls" by blast
  then have "\<exists>warned. orphan_check e repo = Inr warned"
    by (simp add: orphan_check_def Let_def)
  then obtain warned where w: "orphan_check e repo = Inr warned" by blast
  with empty show ?thesis by (simp add: cmd_import_def)
qed

theorem nothing_to_do_witness:
  "new_txn_ids ex_idle = {} \<and>
   orphan_check (ex_env\<lparr>verbose := True\<rparr>) ex_idle =
     Inr [(Text ''WARNING: Transactions in ledger not found in extracts'', False),
          (Orphan 19700 ''Z9'' ''groceries'', False)] \<and>
   cmd_import (ex_env\<lparr>verbose := True\<rparr>) ex_idle =
     Inr \<lparr>echoed = [(Text ''WARNING: Transactions in ledger not found in extracts'', False),
                    (Orphan 19700 ''Z9'' ''groceries'', False),
                    (Text ''No new transactions found'', True)],
          printed = None, written = [], rescanned = False, logged_error = False\<rparr>"
proof -
  have empty: "new_txn_ids ex_idle = {}" by (simp add: new_txn_ids_def ex_idle_def)
  have orphans: "set (map fst (bc_txn_map ex_idle)) - set (map fst (xl_txn_map ex_idle)) = {''Z9''}"
    by (auto simp add: ex_idle_def)
  have it: "set_iter (ex_env\<lparr>verbose := True\<rparr>) {''Z9''} = [''Z9'']"
    by (simp add: ex_env_def)
  have en: "enumerates
     (set_iter (ex_env\<lparr>verbose := True\<rparr>)
        (set (map fst (bc_txn_map ex_idle)) - set (map fst (xl_txn_map ex_idle))))
     (set (map fst (bc_txn_map ex_idle)) - set (map fst (xl_txn_map ex_idle)))"
    by (simp only: orphans it) (simp add: enumerates_def)
  have oc: "orphan_check (ex_env\<lparr>verbose := True\<rparr>) ex_idle =
     Inr [(Text ''WARNING: Transactions in ledger not found in extracts'', False),
          (Orphan 19700 ''Z9'' ''groceries'', False)]"
    unfolding orphan_check_def Let_def orphans it
    by (simp add: ex_env_def ex_idle_def ex_ledger_txn_def)
  from nothing_to_do[OF empty en] oc empty show ?thesis by auto
qed

end
